theory Spec2Isabelle
  imports Main
begin

section \<open>Wire values and the type declarations of the protocol\<close>

text \<open>
  \<^verbatim>\<open>packages/plugin-protocol/src/types/events.ts\<close> consists of TypeScript type
  declarations: interfaces, unions of literals, and the event catalogue
  \<^verbatim>\<open>ProtocolEvents\<close>. A payload travels as a JSON value, so the declarations are
  embedded as terms of a small type language \<open>ty\<close>, and \<open>conforms\<close> decides whether a
  wire value is a member of a declared type, structurally, as TypeScript does: a required
  member must be present with a value of its type, an optional member may be absent,
  members that the type does not name are ignored. One rule of the type checker is not
  structural and is kept: a weak type, that is an object type with at least one member
  and only optional members, does not take an object that has members and shares none
  with it.

  Numbers are kept as integers: conformance only looks at the tag of a value.
  \<^verbatim>\<open>undefined\<close> is not a wire value, so the type \<^verbatim>\<open>undefined\<close> has no member and
  a member of that type can only be absent.
\<close>

datatype json =
    JNull
  | JBool bool
  | JNum int
  | JStr string
  | JArr "json list"
  | JObj "(string \<times> json) list"

datatype ty =
    TString
  | TNumber
  | TBoolean
  | TUndefined
  | TUnknown
  | TNever
  | TLit string
  | TBoolLit bool
  | TArray ty
  | TRecord ty
  | TObj "member list"
  | TUnion "ty list"
  | TInter "ty list"
  | TExt string
and member = Member string bool ty

text \<open>
  \<open>Member n opt t\<close> is the declaration \<^verbatim>\<open>n: t\<close> (\<open>opt = False\<close>) or \<^verbatim>\<open>n?: t\<close>
  (\<open>opt = True\<close>). \<open>TRecord t\<close> is \<^verbatim>\<open>Record<string, t>\<close>, \<open>TUnknown\<close> stands for
  \<^verbatim>\<open>unknown\<close> and \<^verbatim>\<open>any\<close>, and \<open>TExt n\<close> names a type that is declared outside this
  file (the chat message types of \<^verbatim>\<open>@xsai/shared-chat\<close>, \<^verbatim>\<open>ArrayBuffer\<close>) or by
  recursion (\<^verbatim>\<open>RouteTargetExpression\<close>); its members are given by a parameter \<open>ext\<close>.
\<close>

abbreviation req :: "string \<Rightarrow> ty \<Rightarrow> member" where
  "req n t \<equiv> Member n False t"

abbreviation opt :: "string \<Rightarrow> ty \<Rightarrow> member" where
  "opt n t \<equiv> Member n True t"

fun member_name :: "member \<Rightarrow> string" where
  "member_name (Member n b t) = n"

fun member_optional :: "member \<Rightarrow> bool" where
  "member_optional (Member n b t) = b"

fun member_type :: "member \<Rightarrow> ty" where
  "member_type (Member n b t) = t"

fun members :: "ty \<Rightarrow> member list" where
  "members (TObj ms) = ms"
| "members t = []"

definition member_decl :: "ty \<Rightarrow> string \<Rightarrow> member option" where
  "member_decl t n = find (\<lambda>m. member_name m = n) (members t)"

fun get_prop :: "json \<Rightarrow> string \<Rightarrow> json option" where
  "get_prop (JObj kvs) k = map_of kvs k"
| "get_prop v k = None"

text \<open>
  Weak types: an interface with members that are all optional, or an intersection of
  such types. \<open>shares_member t v\<close> holds of every value that is not an object, of the
  empty object, and of an object that has a member which \<open>t\<close> names.
\<close>

fun weak :: "ty \<Rightarrow> bool" where
  "weak (TObj ms) = (ms \<noteq> [] \<and> list_all member_optional ms)"
| "weak (TInter ts) = (ts \<noteq> [] \<and> list_all weak ts)"
| "weak t = False"

fun member_names :: "ty \<Rightarrow> string list" where
  "member_names (TObj ms) = map member_name ms"
| "member_names (TInter ts) = concat (map member_names ts)"
| "member_names t = []"

fun shares_member :: "ty \<Rightarrow> json \<Rightarrow> bool" where
  "shares_member t (JObj kvs) =
     (kvs = [] \<or> list_ex (\<lambda>kv. fst kv \<in> set (member_names t)) kvs)"
| "shares_member t v = True"

text \<open>
  \<open>structural\<close> compares a value with a type member by member; \<open>conforms\<close> adds the
  rule for weak types. The parts of an intersection are compared structurally and the
  rule is applied to the intersection as a whole, as the type checker does; the types of
  members, of array elements and of the alternatives of a union are compared in full.
\<close>

fun conforms :: "(string \<Rightarrow> json \<Rightarrow> bool) \<Rightarrow> ty \<Rightarrow> json \<Rightarrow> bool"
and structural :: "(string \<Rightarrow> json \<Rightarrow> bool) \<Rightarrow> ty \<Rightarrow> json \<Rightarrow> bool"
and conforms_member :: "(string \<Rightarrow> json \<Rightarrow> bool) \<Rightarrow> member \<Rightarrow> json \<Rightarrow> bool" where
  "conforms ext t v = (structural ext t v \<and> (weak t \<longrightarrow> shares_member t v))"
| "structural ext TString v = (case v of JStr s \<Rightarrow> True | _ \<Rightarrow> False)"
| "structural ext TNumber v = (case v of JNum n \<Rightarrow> True | _ \<Rightarrow> False)"
| "structural ext TBoolean v = (case v of JBool b \<Rightarrow> True | _ \<Rightarrow> False)"
| "structural ext TUndefined v = False"
| "structural ext TUnknown v = True"
| "structural ext TNever v = False"
| "structural ext (TLit s) v = (v = JStr s)"
| "structural ext (TBoolLit b) v = (v = JBool b)"
| "structural ext (TArray t) v =
     (case v of JArr xs \<Rightarrow> list_all (conforms ext t) xs | _ \<Rightarrow> False)"
| "structural ext (TRecord t) v =
     (case v of JObj kvs \<Rightarrow> list_all (\<lambda>kv. conforms ext t (snd kv)) kvs | _ \<Rightarrow> False)"
| "structural ext (TObj ms) v =
     (case v of JObj kvs \<Rightarrow> list_all (\<lambda>m. conforms_member ext m v) ms | _ \<Rightarrow> False)"
| "structural ext (TUnion ts) v = list_ex (\<lambda>t. conforms ext t v) ts"
| "structural ext (TInter ts) v = list_all (\<lambda>t. structural ext t v) ts"
| "structural ext (TExt n) v = ext n v"
| "conforms_member ext (Member n b t) v =
     (case get_prop v n of None \<Rightarrow> b | Some x \<Rightarrow> conforms ext t x)"

subsection \<open>The utility types the declarations use\<close>

text \<open>
  \<^verbatim>\<open>Partial<T>\<close> makes every member of an object type optional, \<^verbatim>\<open>Omit<T, K>\<close> and
  \<^verbatim>\<open>Pick<T, K>\<close> drop and keep members by name, \<^verbatim>\<open>keyof\<close> is the union of the
  member names as string literals.
\<close>

fun Partial :: "ty \<Rightarrow> ty" where
  "Partial (TObj ms) = TObj (map (\<lambda>m. Member (member_name m) True (member_type m)) ms)"
| "Partial t = t"

fun Omit :: "ty \<Rightarrow> string list \<Rightarrow> ty" where
  "Omit (TObj ms) ks = TObj (filter (\<lambda>m. member_name m \<notin> set ks) ms)"
| "Omit (TInter ts) ks = TInter (map (\<lambda>t. Omit t ks) ts)"
| "Omit t ks = t"

fun Pick :: "ty \<Rightarrow> string list \<Rightarrow> ty" where
  "Pick (TObj ms) ks = TObj (filter (\<lambda>m. member_name m \<in> set ks) ms)"
| "Pick t ks = t"

definition keyof :: "string list \<Rightarrow> ty" where
  "keyof ks = TUnion (map TLit ks)"

definition literals :: "string list \<Rightarrow> ty" where
  "literals ss = TUnion (map TLit ss)"

subsection \<open>Identity and configuration data\<close>

definition DiscordGuildMember :: ty where
  "DiscordGuildMember = TObj [req ''nickname'' TString, req ''displayName'' TString, req ''id'' TString]"

definition Discord :: ty where
  "Discord = TObj [opt ''guildMember'' DiscordGuildMember, opt ''guildId'' TString,
     opt ''guildName'' TString, opt ''channelId'' TString]"

definition PluginIdentity :: ty where
  "PluginIdentity = TObj [req ''id'' TString, opt ''version'' TString,
     opt ''labels'' (TRecord TString)]"

definition ModuleIdentity :: ty where
  "ModuleIdentity = TObj [req ''id'' TString, req ''kind'' (TLit ''plugin''),
     req ''plugin'' PluginIdentity, opt ''labels'' (TRecord TString)]"

definition ModuleConfigSchema :: ty where
  "ModuleConfigSchema = TObj [req ''id'' TString, req ''version'' TNumber,
     opt ''schema'' (TRecord TUnknown)]"

definition ModuleDependency :: ty where
  "ModuleDependency = TObj [req ''role'' TString, opt ''optional'' TBoolean,
     opt ''version'' TString, opt ''min'' TString, opt ''max'' TString,
     opt ''constraints'' (TRecord TUnknown)]"

definition ModulePhase :: ty where
  "ModulePhase = literals [''announced'', ''preparing'', ''prepared'',
     ''configuration-needed'', ''configured'', ''ready'', ''failed'']"

definition Localizable :: ty where
  "Localizable = TUnion [TString,
     TObj [req ''key'' TString, opt ''fallback'' TString,
       opt ''params'' (TRecord (TUnion [TString, TNumber, TBoolean]))]]"

definition ModuleConfigNotice :: ty where
  "ModuleConfigNotice = TObj [opt ''code'' TString, opt ''message'' Localizable,
     opt ''path'' TString, opt ''replacedBy'' TString, opt ''since'' TNumber,
     opt ''link'' TString]"

definition ModuleConfigStep :: ty where
  "ModuleConfigStep = TObj [opt ''code'' TString, opt ''message'' Localizable,
     opt ''paths'' (TArray TString)]"

definition ModuleConfigPlan :: ty where
  "ModuleConfigPlan = TObj [req ''schema'' ModuleConfigSchema,
     opt ''missing'' (TArray TString),
     opt ''invalid'' (TArray (TObj [req ''path'' TString, req ''reason'' TString])),
     opt ''defaults'' (TRecord TUnknown),
     opt ''deprecated'' (TArray (TUnion [TString, ModuleConfigNotice])),
     opt ''migrations'' (TArray (TObj [req ''from'' TNumber, req ''to'' TNumber,
        opt ''steps'' (TArray (TUnion [TString, ModuleConfigStep])),
        opt ''notes'' (TArray (TUnion [TString, ModuleConfigNotice]))])),
     opt ''nextSteps'' (TArray (TUnion [TString, ModuleConfigStep])),
     opt ''warnings'' (TArray (TUnion [TString, ModuleConfigNotice]))]"

definition ModuleConfigValidation :: ty where
  "ModuleConfigValidation = TObj [req ''status'' (literals [''partial'', ''valid'', ''invalid'']),
     opt ''missing'' (TArray TString),
     opt ''invalid'' (TArray (TObj [req ''path'' TString, req ''reason'' Localizable])),
     opt ''warnings'' (TArray (TUnion [TString, ModuleConfigNotice]))]"

text \<open>\<^verbatim>\<open>ModuleConfigEnvelope<C>\<close>; the parameter \<open>c\<close> is the type of the config payload.\<close>

definition ModuleConfigEnvelope :: "ty \<Rightarrow> ty" where
  "ModuleConfigEnvelope c = TObj [req ''configId'' TString, req ''revision'' TNumber,
     req ''schemaVersion'' TNumber, opt ''source'' ModuleIdentity,
     opt ''full'' c, opt ''patch'' (Partial c), opt ''baseRevision'' TNumber]"

definition ModuleCapability :: ty where
  "ModuleCapability = TObj [req ''id'' TString, opt ''name'' TString,
     opt ''description'' Localizable, opt ''configSchema'' ModuleConfigSchema,
     opt ''metadata'' (TRecord TUnknown)]"

subsection \<open>Routing expressions\<close>

text \<open>
  \<^verbatim>\<open>RouteTargetExpression\<close> is a recursive tagged union: two combinators and seven
  leaf matchers, each leaf with an optional \<^verbatim>\<open>inverted\<close> flag.
\<close>

datatype RouteTargetExpression =
    And "RouteTargetExpression list"
  | Or "RouteTargetExpression list"
  | Glob string "bool option"
  | Ids "string list" "bool option"
  | Plugin "string list" "bool option"
  | Instance "string list" "bool option"
  | Label "string list" "bool option"
  | Module "string list" "bool option"
  | Source "string list" "bool option"

text \<open>The wire form of an expression: the object with the members the union declares.\<close>

definition leaf_json :: "string \<Rightarrow> string \<Rightarrow> json \<Rightarrow> bool option \<Rightarrow> json" where
  "leaf_json tag key pats iv =
     JObj ([(''type'', JStr tag), (key, pats)] @
           (case iv of None \<Rightarrow> [] | Some b \<Rightarrow> [(''inverted'', JBool b)]))"

fun route_json :: "RouteTargetExpression \<Rightarrow> json" where
  "route_json (And xs) = JObj [(''type'', JStr ''and''), (''all'', JArr (map route_json xs))]"
| "route_json (Or xs) = JObj [(''type'', JStr ''or''), (''any'', JArr (map route_json xs))]"
| "route_json (Glob g iv) = leaf_json ''glob'' ''glob'' (JStr g) iv"
| "route_json (Ids ss iv) = leaf_json ''ids'' ''ids'' (JArr (map JStr ss)) iv"
| "route_json (Plugin ss iv) = leaf_json ''plugin'' ''plugins'' (JArr (map JStr ss)) iv"
| "route_json (Instance ss iv) = leaf_json ''instance'' ''instances'' (JArr (map JStr ss)) iv"
| "route_json (Label ss iv) = leaf_json ''label'' ''selectors'' (JArr (map JStr ss)) iv"
| "route_json (Module ss iv) = leaf_json ''module'' ''modules'' (JArr (map JStr ss)) iv"
| "route_json (Source ss iv) = leaf_json ''source'' ''sources'' (JArr (map JStr ss)) iv"

definition RouteConfig :: ty where
  "RouteConfig = TObj [
     opt ''destinations'' (TArray (TUnion [TString, TExt ''RouteTargetExpression''])),
     opt ''bypass'' TBoolean]"

subsection \<open>Enumerations, sources and context updates\<close>

definition MessageHeartbeatKind :: ty where
  "MessageHeartbeatKind = literals [''ping'', ''pong'']"

text \<open>The two heartbeat glyphs, as the bytes of their UTF-8 encoding.\<close>

definition MessageHeartbeat :: ty where
  "MessageHeartbeat = TUnion [
     TLit [char_of (0xF0::nat), char_of (0x9F::nat), char_of (0xA9::nat), char_of (0xB5::nat)],
     TLit [char_of (0xF0::nat), char_of (0x9F::nat), char_of (0x92::nat), char_of (0x9B::nat)]]"

definition WebSocketEventSource :: ty where
  "WebSocketEventSource = literals [''proj-airi:server-runtime'', ''proj-airi:stage-web'',
     ''proj-airi:stage-tamagotchi'']"

definition ContextUpdateStrategy :: ty where
  "ContextUpdateStrategy = literals [''replace-self'', ''append-self'']"

definition ContextUpdateDestinationAll :: ty where
  "ContextUpdateDestinationAll = TObj [req ''all'' (TBoolLit True)]"

definition ContextUpdateDestinationList :: ty where
  "ContextUpdateDestinationList = TObj [opt ''include'' (TArray TString),
     opt ''exclude'' (TArray TString)]"

definition ContextUpdateDestinationFilter :: ty where
  "ContextUpdateDestinationFilter =
     TUnion [ContextUpdateDestinationAll, ContextUpdateDestinationList]"

text \<open>\<^verbatim>\<open>ContextUpdate<Metadata, Content>\<close>, with its two type parameters.\<close>

definition ContextUpdate :: "ty \<Rightarrow> ty \<Rightarrow> ty" where
  "ContextUpdate md ct = TObj [req ''id'' TString, req ''contextId'' TString,
     opt ''lane'' TString, opt ''ideas'' (TArray TString), opt ''hints'' (TArray TString),
     req ''strategy'' ContextUpdateStrategy, req ''text'' TString, opt ''content'' ct,
     opt ''destinations'' (TUnion [TArray TString, ContextUpdateDestinationFilter]),
     opt ''metadata'' md]"

definition InputMessageOverrides :: ty where
  "InputMessageOverrides = TObj [opt ''sessionId'' TString, opt ''messagePrefix'' TString]"

definition ChatContent :: ty where
  "ChatContent = TUnion [TString, TArray (TExt ''CommonContentPart'')]"

definition InputContextUpdate :: ty where
  "InputContextUpdate = TInter [
     Omit (ContextUpdate (TRecord TUnknown) ChatContent) [''id'', ''contextId''],
     Partial (Pick (ContextUpdate (TRecord TUnknown) ChatContent) [''id'', ''contextId''])]"

definition InputSource :: ty where
  "InputSource = TObj [req ''stage-web'' TBoolean, req ''stage-tamagotchi'' TBoolean,
     req ''discord'' Discord]"

definition WithInputSource :: "string list \<Rightarrow> ty" where
  "WithInputSource src = Pick InputSource src"

definition InputSources :: ty where
  "InputSources = Partial (WithInputSource [''stage-web'', ''stage-tamagotchi'', ''discord''])"

definition WebSocketEventInputTextBase :: ty where
  "WebSocketEventInputTextBase = TObj [req ''text'' TString, opt ''textRaw'' TString,
     opt ''overrides'' InputMessageOverrides,
     opt ''contextUpdates'' (TArray InputContextUpdate)]"

definition WebSocketEventInputText :: ty where
  "WebSocketEventInputText = TInter [WebSocketEventInputTextBase, InputSources]"

definition WebSocketEventInputTextVoiceBase :: ty where
  "WebSocketEventInputTextVoiceBase = TObj [req ''transcription'' TString,
     opt ''textRaw'' TString, opt ''overrides'' InputMessageOverrides,
     opt ''contextUpdates'' (TArray InputContextUpdate)]"

definition WebSocketEventInputTextVoice :: ty where
  "WebSocketEventInputTextVoice = TInter [WebSocketEventInputTextVoiceBase, InputSources]"

definition WebSocketEventInputVoiceBase :: ty where
  "WebSocketEventInputVoiceBase = TObj [req ''audio'' (TExt ''ArrayBuffer''),
     opt ''overrides'' InputMessageOverrides,
     opt ''contextUpdates'' (TArray InputContextUpdate)]"

definition WebSocketEventInputVoice :: ty where
  "WebSocketEventInputVoice = TInter [WebSocketEventInputVoiceBase, InputSources]"

definition InputEventEnvelope :: ty where
  "InputEventEnvelope = TUnion [
     TObj [req ''type'' (TLit ''input:text''), req ''data'' WebSocketEventInputText],
     TObj [req ''type'' (TLit ''input:text:voice''), req ''data'' WebSocketEventInputTextVoice],
     TObj [req ''type'' (TLit ''input:voice''), req ''data'' WebSocketEventInputVoice]]"

definition OutputSource :: ty where
  "OutputSource = TObj [req ''gen-ai:chat'' (TObj [req ''message'' (TExt ''UserMessage''),
     req ''contexts'' (TRecord (TArray (ContextUpdate (TRecord TUnknown) ChatContent))),
     req ''composedMessage'' (TArray (TExt ''Message'')),
     opt ''input'' InputEventEnvelope])]"

definition WithOutputSource :: "string list \<Rightarrow> ty" where
  "WithOutputSource src = Pick OutputSource src"

definition OutputSources :: ty where
  "OutputSources = Partial (WithOutputSource [''gen-ai:chat''])"

definition EventBaseMetadata :: ty where
  "EventBaseMetadata = TObj [opt ''source'' ModuleIdentity,
     opt ''event'' (TObj [opt ''id'' TString, opt ''parentId'' TString])]"

section \<open>The event payloads\<close>

text \<open>
  The keys of \<^verbatim>\<open>ProtocolEvents\<close>, in the order of the declaration. The payload of
  \<^verbatim>\<open>module:announce\<close> refers to them (\<^verbatim>\<open>keyof ProtocolEvents<C>\<close>) while the
  catalogue refers to that payload, so the keys are listed first and the catalogue,
  defined below, is shown to have exactly these keys.
\<close>

definition ProtocolEventNames :: "string list" where
  "ProtocolEventNames = [
     ''error'',
     ''module:authenticate'',
     ''module:authenticated'',
     ''module:compatibility:request'',
     ''module:compatibility:result'',
     ''registry:modules:sync'',
     ''module:announce'',
     ''module:prepared'',
     ''module:configuration:needed'',
     ''module:status'',
     ''module:configuration:validate:request'',
     ''module:configuration:validate:response'',
     ''module:configuration:validate:status'',
     ''module:configuration:plan:request'',
     ''module:configuration:plan:response'',
     ''module:configuration:plan:status'',
     ''module:configuration:commit'',
     ''module:configuration:commit:status'',
     ''module:configuration:configured'',
     ''module:contribute:capability:offer'',
     ''module:contribute:capability:configuration:needed'',
     ''module:contribute:capability:configuration:validate:request'',
     ''module:contribute:capability:configuration:validate:response'',
     ''module:contribute:capability:configuration:validate:status'',
     ''module:contribute:capability:configuration:plan:request'',
     ''module:contribute:capability:configuration:plan:response'',
     ''module:contribute:capability:configuration:plan:status'',
     ''module:contribute:capability:configuration:commit'',
     ''module:contribute:capability:configuration:commit:status'',
     ''module:contribute:capability:configuration:configured'',
     ''module:contribute:capability:activated'',
     ''module:status:change'',
     ''module:configure'',
     ''ui:configure'',
     ''input:text'',
     ''input:text:voice'',
     ''input:voice'',
     ''output:gen-ai:chat:tool-call'',
     ''output:gen-ai:chat:message'',
     ''output:gen-ai:chat:complete'',
     ''spark:notify'',
     ''spark:emit'',
     ''spark:command'',
     ''speak:text'',
     ''transport:connection:heartbeat'',
     ''context:update'']"

definition ModuleAuthenticateEvent :: ty where
  "ModuleAuthenticateEvent = TObj [req ''token'' TString]"

definition ModuleAuthenticatedEvent :: ty where
  "ModuleAuthenticatedEvent = TObj [req ''authenticated'' TBoolean]"

definition ModuleCompatibilityRequestEvent :: ty where
  "ModuleCompatibilityRequestEvent = TObj [req ''protocolVersion'' TString,
     req ''apiVersion'' TString, opt ''supportedProtocolVersions'' (TArray TString),
     opt ''supportedApiVersions'' (TArray TString)]"

definition ModuleCompatibilityResultEvent :: ty where
  "ModuleCompatibilityResultEvent = TObj [req ''protocolVersion'' TString,
     req ''apiVersion'' TString,
     req ''mode'' (literals [''exact'', ''downgraded'', ''rejected'']),
     opt ''reason'' TString]"

definition RegistryModulesSyncEvent :: ty where
  "RegistryModulesSyncEvent = TObj [req ''modules'' (TArray (TObj [req ''name'' TString,
     opt ''index'' TNumber, req ''identity'' ModuleIdentity]))]"

definition ErrorEvent :: ty where
  "ErrorEvent = TObj [req ''message'' TString]"

definition ModuleAnnounceEvent :: "ty \<Rightarrow> ty" where
  "ModuleAnnounceEvent c = TObj [req ''name'' TString, req ''identity'' ModuleIdentity,
     req ''possibleEvents'' (TArray (keyof ProtocolEventNames)),
     opt ''configSchema'' ModuleConfigSchema,
     opt ''dependencies'' (TArray ModuleDependency)]"

definition ModulePreparedEvent :: ty where
  "ModulePreparedEvent = TObj [req ''identity'' ModuleIdentity,
     opt ''missingDependencies'' (TArray ModuleDependency)]"

definition ModuleConfigurationNeededEvent :: "ty \<Rightarrow> ty" where
  "ModuleConfigurationNeededEvent c = TObj [req ''identity'' ModuleIdentity,
     opt ''schema'' ModuleConfigSchema, opt ''current'' (ModuleConfigEnvelope c),
     opt ''reason'' TString]"

definition ModuleStatusEvent :: ty where
  "ModuleStatusEvent = TObj [req ''identity'' ModuleIdentity, req ''phase'' ModulePhase,
     opt ''reason'' TString, opt ''details'' (TRecord TUnknown)]"

definition ModuleConfigurationValidateRequestEvent :: "ty \<Rightarrow> ty" where
  "ModuleConfigurationValidateRequestEvent c = TObj [req ''identity'' ModuleIdentity,
     opt ''current'' (ModuleConfigEnvelope c)]"

definition ModuleConfigurationValidateResponseEvent :: "ty \<Rightarrow> ty" where
  "ModuleConfigurationValidateResponseEvent c = TObj [req ''identity'' ModuleIdentity,
     req ''validation'' ModuleConfigValidation, opt ''plan'' ModuleConfigPlan,
     opt ''current'' (ModuleConfigEnvelope c)]"

definition ModuleConfigurationValidateStatusEvent :: ty where
  "ModuleConfigurationValidateStatusEvent = TObj [req ''identity'' ModuleIdentity,
     req ''state'' (literals [''queued'', ''working'', ''done'', ''failed'']),
     opt ''note'' TString, opt ''progress'' TNumber]"

definition ModuleConfigurationPlanRequestEvent :: "ty \<Rightarrow> ty" where
  "ModuleConfigurationPlanRequestEvent c = TObj [req ''identity'' ModuleIdentity,
     opt ''plan'' ModuleConfigPlan, opt ''current'' (ModuleConfigEnvelope c)]"

definition ModuleConfigurationPlanResponseEvent :: "ty \<Rightarrow> ty" where
  "ModuleConfigurationPlanResponseEvent c = TObj [req ''identity'' ModuleIdentity,
     req ''plan'' ModuleConfigPlan, opt ''current'' (ModuleConfigEnvelope c)]"

definition ModuleConfigurationPlanStatusEvent :: ty where
  "ModuleConfigurationPlanStatusEvent = TObj [req ''identity'' ModuleIdentity,
     req ''state'' (literals [''queued'', ''working'', ''done'', ''failed'']),
     opt ''note'' TString, opt ''progress'' TNumber]"

definition ModuleConfigurationCommitEvent :: "ty \<Rightarrow> ty" where
  "ModuleConfigurationCommitEvent c = TObj [req ''identity'' ModuleIdentity,
     req ''config'' (ModuleConfigEnvelope c)]"

definition ModuleConfigurationCommitStatusEvent :: ty where
  "ModuleConfigurationCommitStatusEvent = TObj [req ''identity'' ModuleIdentity,
     req ''state'' (literals [''queued'', ''working'', ''done'', ''failed'']),
     opt ''note'' TString, opt ''progress'' TNumber]"

definition ModuleConfigurationConfiguredEvent :: "ty \<Rightarrow> ty" where
  "ModuleConfigurationConfiguredEvent c = TObj [req ''identity'' ModuleIdentity,
     req ''config'' (ModuleConfigEnvelope c)]"

definition ModuleContributeCapabilityOfferEvent :: ty where
  "ModuleContributeCapabilityOfferEvent = TObj [req ''identity'' ModuleIdentity,
     req ''capability'' ModuleCapability]"

definition ModuleContributeCapabilityConfigurationNeededEvent :: "ty \<Rightarrow> ty" where
  "ModuleContributeCapabilityConfigurationNeededEvent c = TObj [
     req ''identity'' ModuleIdentity, req ''capabilityId'' TString,
     opt ''schema'' ModuleConfigSchema, opt ''current'' (ModuleConfigEnvelope c),
     opt ''reason'' TString]"

definition ModuleContributeCapabilityConfigurationValidateRequestEvent :: "ty \<Rightarrow> ty" where
  "ModuleContributeCapabilityConfigurationValidateRequestEvent c = TObj [
     req ''identity'' ModuleIdentity, req ''capabilityId'' TString,
     opt ''current'' (ModuleConfigEnvelope c)]"

definition ModuleContributeCapabilityConfigurationValidateResponseEvent :: "ty \<Rightarrow> ty" where
  "ModuleContributeCapabilityConfigurationValidateResponseEvent c = TObj [
     req ''identity'' ModuleIdentity, req ''capabilityId'' TString,
     req ''validation'' ModuleConfigValidation, opt ''plan'' ModuleConfigPlan,
     opt ''current'' (ModuleConfigEnvelope c)]"

definition ModuleContributeCapabilityConfigurationValidateStatusEvent :: ty where
  "ModuleContributeCapabilityConfigurationValidateStatusEvent = TObj [
     req ''identity'' ModuleIdentity, req ''capabilityId'' TString,
     req ''state'' (literals [''queued'', ''working'', ''done'', ''failed'']),
     opt ''note'' TString, opt ''progress'' TNumber]"

definition ModuleContributeCapabilityConfigurationPlanRequestEvent :: "ty \<Rightarrow> ty" where
  "ModuleContributeCapabilityConfigurationPlanRequestEvent c = TObj [
     req ''identity'' ModuleIdentity, req ''capabilityId'' TString,
     opt ''plan'' ModuleConfigPlan, opt ''current'' (ModuleConfigEnvelope c)]"

definition ModuleContributeCapabilityConfigurationPlanResponseEvent :: "ty \<Rightarrow> ty" where
  "ModuleContributeCapabilityConfigurationPlanResponseEvent c = TObj [
     req ''identity'' ModuleIdentity, req ''capabilityId'' TString,
     req ''plan'' ModuleConfigPlan, opt ''current'' (ModuleConfigEnvelope c)]"

definition ModuleContributeCapabilityConfigurationPlanStatusEvent :: ty where
  "ModuleContributeCapabilityConfigurationPlanStatusEvent = TObj [
     req ''identity'' ModuleIdentity, req ''capabilityId'' TString,
     req ''state'' (literals [''queued'', ''working'', ''done'', ''failed'']),
     opt ''note'' TString, opt ''progress'' TNumber]"

definition ModuleContributeCapabilityConfigurationCommitEvent :: "ty \<Rightarrow> ty" where
  "ModuleContributeCapabilityConfigurationCommitEvent c = TObj [
     req ''identity'' ModuleIdentity, req ''capabilityId'' TString,
     req ''config'' (ModuleConfigEnvelope c)]"

definition ModuleContributeCapabilityConfigurationCommitStatusEvent :: ty where
  "ModuleContributeCapabilityConfigurationCommitStatusEvent = TObj [
     req ''identity'' ModuleIdentity, req ''capabilityId'' TString,
     req ''state'' (literals [''queued'', ''working'', ''done'', ''failed'']),
     opt ''note'' TString, opt ''progress'' TNumber]"

definition ModuleContributeCapabilityConfigurationConfiguredEvent :: "ty \<Rightarrow> ty" where
  "ModuleContributeCapabilityConfigurationConfiguredEvent c = TObj [
     req ''identity'' ModuleIdentity, req ''capabilityId'' TString,
     req ''config'' (ModuleConfigEnvelope c)]"

definition ModuleContributeCapabilityActivatedEvent :: ty where
  "ModuleContributeCapabilityActivatedEvent = TObj [req ''identity'' ModuleIdentity,
     req ''capabilityId'' TString, req ''active'' TBoolean, opt ''reason'' TString]"

definition ModuleStatusChangeEvent :: ty where
  "ModuleStatusChangeEvent = TObj [req ''identity'' ModuleIdentity, req ''phase'' ModulePhase,
     opt ''reason'' TString, opt ''details'' (TRecord TUnknown)]"

definition ModuleConfigureEvent :: "ty \<Rightarrow> ty" where
  "ModuleConfigureEvent c = TObj [req ''config'' (TUnion [c, TRecord TUnknown])]"

definition UiConfigureEvent :: "ty \<Rightarrow> ty" where
  "UiConfigureEvent c = TObj [req ''moduleName'' TString, opt ''moduleIndex'' TNumber,
     req ''config'' (TUnion [c, TRecord TUnknown])]"

definition OutputGenAiChatToolCallEvent :: ty where
  "OutputGenAiChatToolCallEvent = TInter [
     TObj [req ''toolCalls'' (TArray (TExt ''ToolMessage''))], InputSources, OutputSources]"

definition OutputGenAiChatMessageEvent :: ty where
  "OutputGenAiChatMessageEvent = TInter [
     TObj [req ''message'' (TExt ''AssistantMessage'')], InputSources, OutputSources]"

definition OutputGenAiChatUsage :: ty where
  "OutputGenAiChatUsage = TObj [req ''promptTokens'' TNumber, req ''completionTokens'' TNumber,
     req ''totalTokens'' TNumber,
     req ''source'' (literals [''provider-based'', ''estimate-based''])]"

definition OutputGenAiChatCompleteEvent :: ty where
  "OutputGenAiChatCompleteEvent = TInter [
     TObj [req ''message'' (TExt ''AssistantMessage''),
       req ''toolCalls'' (TArray (TExt ''ToolMessage'')), req ''usage'' OutputGenAiChatUsage],
     InputSources, OutputSources]"

definition SparkNotifyEvent :: ty where
  "SparkNotifyEvent = TObj [req ''id'' TString, req ''eventId'' TString, opt ''lane'' TString,
     req ''kind'' (literals [''alarm'', ''ping'', ''reminder'']),
     req ''urgency'' (literals [''immediate'', ''soon'', ''later'']),
     req ''headline'' TString, opt ''note'' TString, opt ''payload'' (TRecord TUnknown),
     opt ''ttlMs'' TNumber, opt ''requiresAck'' TBoolean,
     req ''destinations'' (TArray TString), opt ''metadata'' (TRecord TUnknown)]"

definition SparkEmitEvent :: ty where
  "SparkEmitEvent = TObj [req ''id'' TString, opt ''eventId'' TString,
     req ''state'' (literals [''queued'', ''working'', ''done'', ''dropped'', ''blocked'',
        ''expired'']),
     opt ''note'' TString, req ''destinations'' (TArray TString),
     opt ''metadata'' (TRecord TUnknown)]"

definition SparkCommandGuidanceOption :: ty where
  "SparkCommandGuidanceOption = TObj [req ''label'' TString, req ''steps'' (TArray TString),
     opt ''rationale'' TString, opt ''possibleOutcome'' (TArray TString),
     opt ''risk'' (literals [''high'', ''medium'', ''low'', ''none'']),
     opt ''fallback'' (TArray TString), opt ''triggers'' (TArray TString)]"

definition SparkCommandGuidance :: ty where
  "SparkCommandGuidance = TObj [
     req ''type'' (literals [''proposal'', ''instruction'', ''memory-recall'']),
     opt ''persona'' (TRecord (literals [''very-high'', ''high'', ''medium'', ''low'',
        ''very-low''])),
     req ''options'' (TArray SparkCommandGuidanceOption)]"

definition SparkCommandEvent :: ty where
  "SparkCommandEvent = TObj [req ''id'' TString, opt ''eventId'' TString,
     opt ''parentEventId'' TString, req ''commandId'' TString,
     req ''interrupt'' (TUnion [TLit ''force'', TLit ''soft'', TBoolLit False]),
     req ''priority'' (literals [''critical'', ''high'', ''normal'', ''low'']),
     req ''intent'' (literals [''plan'', ''proposal'', ''action'', ''pause'', ''resume'',
        ''reroute'', ''context'']),
     opt ''ack'' TString, opt ''guidance'' SparkCommandGuidance,
     opt ''contexts'' (TArray (ContextUpdate (TRecord TUnknown) TUndefined)),
     req ''destinations'' (TArray TString)]"

definition SpeakTextEvent :: ty where
  "SpeakTextEvent = TObj [req ''text'' TString, opt ''voiceId'' TString,
     opt ''emotion'' (literals [''neutral'', ''happy'', ''sad'', ''angry'', ''excited'']),
     opt ''speed'' TNumber, opt ''metadata'' (TRecord TUnknown)]"

definition TransportConnectionHeartbeatEvent :: ty where
  "TransportConnectionHeartbeatEvent = TObj [req ''kind'' MessageHeartbeatKind,
     req ''message'' (TUnion [MessageHeartbeat, TString]), opt ''at'' TNumber]"

definition ContextUpdateEvent :: ty where
  "ContextUpdateEvent = ContextUpdate (TRecord TUnknown) TUndefined"

subsection \<open>The catalogue\<close>

text \<open>\<^verbatim>\<open>ProtocolEvents<C>\<close>: every event name with the type of its payload.\<close>

definition ProtocolEvents :: "ty \<Rightarrow> (string \<times> ty) list" where
  "ProtocolEvents c = [
     (''error'', ErrorEvent),
     (''module:authenticate'', ModuleAuthenticateEvent),
     (''module:authenticated'', ModuleAuthenticatedEvent),
     (''module:compatibility:request'', ModuleCompatibilityRequestEvent),
     (''module:compatibility:result'', ModuleCompatibilityResultEvent),
     (''registry:modules:sync'', RegistryModulesSyncEvent),
     (''module:announce'', ModuleAnnounceEvent c),
     (''module:prepared'', ModulePreparedEvent),
     (''module:configuration:needed'', ModuleConfigurationNeededEvent c),
     (''module:status'', ModuleStatusEvent),
     (''module:configuration:validate:request'', ModuleConfigurationValidateRequestEvent c),
     (''module:configuration:validate:response'', ModuleConfigurationValidateResponseEvent c),
     (''module:configuration:validate:status'', ModuleConfigurationValidateStatusEvent),
     (''module:configuration:plan:request'', ModuleConfigurationPlanRequestEvent c),
     (''module:configuration:plan:response'', ModuleConfigurationPlanResponseEvent c),
     (''module:configuration:plan:status'', ModuleConfigurationPlanStatusEvent),
     (''module:configuration:commit'', ModuleConfigurationCommitEvent c),
     (''module:configuration:commit:status'', ModuleConfigurationCommitStatusEvent),
     (''module:configuration:configured'', ModuleConfigurationConfiguredEvent c),
     (''module:contribute:capability:offer'', ModuleContributeCapabilityOfferEvent),
     (''module:contribute:capability:configuration:needed'',
        ModuleContributeCapabilityConfigurationNeededEvent c),
     (''module:contribute:capability:configuration:validate:request'',
        ModuleContributeCapabilityConfigurationValidateRequestEvent c),
     (''module:contribute:capability:configuration:validate:response'',
        ModuleContributeCapabilityConfigurationValidateResponseEvent c),
     (''module:contribute:capability:configuration:validate:status'',
        ModuleContributeCapabilityConfigurationValidateStatusEvent),
     (''module:contribute:capability:configuration:plan:request'',
        ModuleContributeCapabilityConfigurationPlanRequestEvent c),
     (''module:contribute:capability:configuration:plan:response'',
        ModuleContributeCapabilityConfigurationPlanResponseEvent c),
     (''module:contribute:capability:configuration:plan:status'',
        ModuleContributeCapabilityConfigurationPlanStatusEvent),
     (''module:contribute:capability:configuration:commit'',
        ModuleContributeCapabilityConfigurationCommitEvent c),
     (''module:contribute:capability:configuration:commit:status'',
        ModuleContributeCapabilityConfigurationCommitStatusEvent),
     (''module:contribute:capability:configuration:configured'',
        ModuleContributeCapabilityConfigurationConfiguredEvent c),
     (''module:contribute:capability:activated'', ModuleContributeCapabilityActivatedEvent),
     (''module:status:change'', ModuleStatusChangeEvent),
     (''module:configure'', ModuleConfigureEvent c),
     (''ui:configure'', UiConfigureEvent c),
     (''input:text'', WebSocketEventInputText),
     (''input:text:voice'', WebSocketEventInputTextVoice),
     (''input:voice'', WebSocketEventInputVoice),
     (''output:gen-ai:chat:tool-call'', OutputGenAiChatToolCallEvent),
     (''output:gen-ai:chat:message'', OutputGenAiChatMessageEvent),
     (''output:gen-ai:chat:complete'', OutputGenAiChatCompleteEvent),
     (''spark:notify'', SparkNotifyEvent),
     (''spark:emit'', SparkEmitEvent),
     (''spark:command'', SparkCommandEvent),
     (''speak:text'', SpeakTextEvent),
     (''transport:connection:heartbeat'', TransportConnectionHeartbeatEvent),
     (''context:update'', ContextUpdateEvent)]"

text \<open>
  \<^verbatim>\<open>ProtocolEventOf<E, C>\<close>: the payload of \<open>e\<close> without its own \<^verbatim>\<open>metadata\<close>
  member, intersected with \<^verbatim>\<open>{ metadata?: Record<string, unknown> }\<close>, and
  \<^verbatim>\<open>never\<close> when \<open>e\<close> is not a key of the catalogue.
\<close>

definition ProtocolEventOf :: "string \<Rightarrow> ty \<Rightarrow> ty" where
  "ProtocolEventOf e c =
     (case map_of (ProtocolEvents c) e of
        Some t \<Rightarrow> TInter [Omit t [''metadata''], TObj [opt ''metadata'' (TRecord TUnknown)]]
      | None \<Rightarrow> TNever)"

section \<open>Reading and editing wire objects\<close>

definition str_prop :: "json \<Rightarrow> string \<Rightarrow> string option" where
  "str_prop v k = (case get_prop v k of Some (JStr s) \<Rightarrow> Some s | _ \<Rightarrow> None)"

definition num_prop :: "json \<Rightarrow> string \<Rightarrow> int option" where
  "num_prop v k = (case get_prop v k of Some (JNum n) \<Rightarrow> Some n | _ \<Rightarrow> None)"

fun is_obj :: "json \<Rightarrow> bool" where
  "is_obj (JObj kvs) = True"
| "is_obj v = False"

fun drop_props :: "string list \<Rightarrow> json \<Rightarrow> json" where
  "drop_props ks (JObj kvs) = JObj (filter (\<lambda>kv. fst kv \<notin> set ks) kvs)"
| "drop_props ks v = v"

fun set_prop :: "string \<Rightarrow> json \<Rightarrow> json \<Rightarrow> json" where
  "set_prop k x (JObj kvs) = JObj ((k, x) # filter (\<lambda>kv. fst kv \<noteq> k) kvs)"
| "set_prop k x v = v"

text \<open>
  An object type whose members are all at the top: an interface, or an intersection of
  such types. Every payload of the catalogue has this form.
\<close>

fun object_like :: "ty \<Rightarrow> bool" where
  "object_like (TObj ms) = True"
| "object_like (TInter ts) = list_all object_like ts"
| "object_like t = False"

text \<open>The reading of the external types under which none of them has a member.\<close>

definition no_ext :: "string \<Rightarrow> json \<Rightarrow> bool" where
  "no_ext n v = False"

section \<open>The config negotiation sub-protocol: shapes\<close>

text \<open>
  The steps of the sub-protocol, each with its module-level and its capability-level
  payload type.
\<close>

definition config_steps :: "ty \<Rightarrow> (string \<times> ty \<times> ty) list" where
  "config_steps c = [
     (''validate:request'', ModuleConfigurationValidateRequestEvent c,
        ModuleContributeCapabilityConfigurationValidateRequestEvent c),
     (''validate:response'', ModuleConfigurationValidateResponseEvent c,
        ModuleContributeCapabilityConfigurationValidateResponseEvent c),
     (''validate:status'', ModuleConfigurationValidateStatusEvent,
        ModuleContributeCapabilityConfigurationValidateStatusEvent),
     (''plan:request'', ModuleConfigurationPlanRequestEvent c,
        ModuleContributeCapabilityConfigurationPlanRequestEvent c),
     (''plan:response'', ModuleConfigurationPlanResponseEvent c,
        ModuleContributeCapabilityConfigurationPlanResponseEvent c),
     (''plan:status'', ModuleConfigurationPlanStatusEvent,
        ModuleContributeCapabilityConfigurationPlanStatusEvent),
     (''commit'', ModuleConfigurationCommitEvent c,
        ModuleContributeCapabilityConfigurationCommitEvent c),
     (''commit:status'', ModuleConfigurationCommitStatusEvent,
        ModuleContributeCapabilityConfigurationCommitStatusEvent),
     (''configured'', ModuleConfigurationConfiguredEvent c,
        ModuleContributeCapabilityConfigurationConfiguredEvent c)]"

text \<open>
  \<open>extends_by m k n t\<close>: \<open>m\<close> and \<open>k\<close> are interfaces, and \<open>k\<close> is \<open>m\<close> with
  exactly one more member, the required \<open>n: t\<close>; \<open>m\<close> has no member of that name.
\<close>

definition extends_by :: "ty \<Rightarrow> ty \<Rightarrow> string \<Rightarrow> ty \<Rightarrow> bool" where
  "extends_by m k n t =
     (m = TObj (members m) \<and> k = TObj (members k) \<and> member_decl m n = None \<and>
      member_decl k n = Some (req n t) \<and> Omit k [n] = m \<and>
      length (members k) = Suc (length (members m)))"

definition status_states :: ty where
  "status_states = literals [''queued'', ''working'', ''done'', ''failed'']"

section \<open>The commit step\<close>

text \<open>
  Modelled from the spec: the responder side of the commit step, which is not part of
  \<^verbatim>\<open>events.ts\<close> (the file declares the payloads only). The responder keeps, for every
  \<^verbatim>\<open>configId\<close>, the current revision and the current config. It rejects an envelope
  of the wrong shape, a config that its validation finds invalid, and a \<^verbatim>\<open>patch\<close>
  whose \<^verbatim>\<open>baseRevision\<close> is not the current revision of that \<^verbatim>\<open>configId\<close>; an
  accepted commit advances the revision and answers with the new envelope, a rejected one
  leaves the store as it was. The validation of an envelope against the schema and the
  folding of a patch into the stored config are left open: \<open>validate\<close> and \<open>merge\<close>.
\<close>

record stored_config =
  stored_revision :: int
  stored_value :: json

type_synonym config_store = "string \<rightharpoonup> stored_config"

text \<open>The three values of \<^verbatim>\<open>ModuleConfigValidation.status\<close>.\<close>

datatype ValidationStatus = StatusPartial | StatusValid | StatusInvalid

datatype commit_rejection = MalformedEnvelope | InvalidConfig | StaleBaseRevision



text \<open>
  Modelled from the spec: what an accepted commit does, absent from \<^verbatim>\<open>events.ts\<close>: the
  store takes the new revision and config, and the answer is the new envelope (the payload
  of the \<^verbatim>\<open>configured\<close> event).
\<close>

definition accept :: "config_store \<Rightarrow> string \<Rightarrow> int \<Rightarrow> int \<Rightarrow> json
    \<Rightarrow> (commit_rejection + json) \<times> config_store" where
  "accept st cid sv r v =
     (Inr (JObj [(''configId'', JStr cid), (''revision'', JNum r),
                 (''schemaVersion'', JNum sv), (''full'', v)]),
      st(cid \<mapsto> \<lparr>stored_revision = r, stored_value = v\<rparr>))"

text \<open>
  Modelled from the spec: the commit step of the responder, absent from \<^verbatim>\<open>events.ts\<close>.
  An envelope without \<^verbatim>\<open>configId\<close>, \<^verbatim>\<open>revision\<close> or \<^verbatim>\<open>schemaVersion\<close>, with
  neither payload or with both, is malformed (exactly one of \<^verbatim>\<open>full\<close> and \<^verbatim>\<open>patch\<close>
  is the payload). A config that validates as invalid is rejected. A patch is then guarded
  by \<^verbatim>\<open>baseRevision\<close>; a full payload is not, and the first full payload of a
  \<^verbatim>\<open>configId\<close> is stored under the revision it announces.
\<close>

definition commit :: "(json \<Rightarrow> ValidationStatus) \<Rightarrow> (json \<Rightarrow> json \<Rightarrow> json)
    \<Rightarrow> config_store \<Rightarrow> json \<Rightarrow> (commit_rejection + json) \<times> config_store" where
  "commit validate merge st env =
     (case (str_prop env ''configId'', num_prop env ''revision'',
            num_prop env ''schemaVersion'') of
        (Some cid, Some r, Some sv) \<Rightarrow>
          (case (get_prop env ''full'', get_prop env ''patch'') of
             (None, None) \<Rightarrow> (Inl MalformedEnvelope, st)
           | (Some f, Some p) \<Rightarrow> (Inl MalformedEnvelope, st)
           | (None, Some p) \<Rightarrow>
               if validate env = StatusInvalid then (Inl InvalidConfig, st)
               else
                 (case st cid of
                    Some cur \<Rightarrow>
                      if num_prop env ''baseRevision'' = Some (stored_revision cur)
                      then accept st cid sv (stored_revision cur + 1)
                             (merge (stored_value cur) p)
                      else (Inl StaleBaseRevision, st)
                  | None \<Rightarrow> (Inl StaleBaseRevision, st))
           | (Some f, None) \<Rightarrow>
               if validate env = StatusInvalid then (Inl InvalidConfig, st)
               else
                 accept st cid sv
                   (case st cid of Some cur \<Rightarrow> stored_revision cur + 1 | None \<Rightarrow> r) f)
      | _ \<Rightarrow> (Inl MalformedEnvelope, st))"



section \<open>The routing engine\<close>

text \<open>
  Modelled from the spec: the evaluation of a \<^verbatim>\<open>RouteTargetExpression\<close> against the
  registry, which is not part of \<^verbatim>\<open>events.ts\<close> (the file declares the expression type
  only). The registry is keyed by module id and holds the metadata of each module; the
  result is a set of module ids. \<^verbatim>\<open>and\<close> and \<^verbatim>\<open>or\<close> intersect and unite the results
  of their children within the registry; a leaf computes its match set from the registry
  and, when \<^verbatim>\<open>inverted\<close> is true, complements it against the ids of the registry. How a
  leaf of a given kind matches a module is left open: \<open>sel kind patterns id metadata\<close>.

  The type has an \<^verbatim>\<open>inverted\<close> flag on leaves only, so \<open>invert\<close> flips that flag on a
  leaf and goes through a combinator by De Morgan's laws.
\<close>

type_synonym 'm registry = "(string \<times> 'm) list"

type_synonym 'm matcher = "string \<Rightarrow> string list \<Rightarrow> string \<Rightarrow> 'm \<Rightarrow> bool"

text \<open>Modelled from the spec: the ids of the registry, absent from \<^verbatim>\<open>events.ts\<close>.\<close>

definition registry_ids :: "'m registry \<Rightarrow> string set" where
  "registry_ids reg = set (map fst reg)"

text \<open>
  Modelled from the spec: the result of a leaf matcher, absent from \<^verbatim>\<open>events.ts\<close>:
  the ids of the registry whose module the matcher selects, complemented within the
  registry when \<^verbatim>\<open>inverted\<close> is true.
\<close>

definition leaf :: "'m matcher \<Rightarrow> 'm registry \<Rightarrow> string \<Rightarrow> string list \<Rightarrow> bool option
    \<Rightarrow> string set" where
  "leaf sel reg kind pats iv =
     (let matched = set (filter (\<lambda>i. case map_of reg i of Some m \<Rightarrow> sel kind pats i m
                                        | None \<Rightarrow> False) (map fst reg))
      in if iv = Some True then registry_ids reg - matched else matched)"

text \<open>
  Modelled from the spec: the evaluation of an expression, absent from \<^verbatim>\<open>events.ts\<close>.
  An \<^verbatim>\<open>and\<close> without children selects the whole registry, an \<^verbatim>\<open>or\<close> without
  children selects nothing.
\<close>

fun evaluate :: "'m matcher \<Rightarrow> 'm registry \<Rightarrow> RouteTargetExpression \<Rightarrow> string set" where
  "evaluate sel reg (And xs) = registry_ids reg \<inter> (\<Inter>x\<in>set xs. evaluate sel reg x)"
| "evaluate sel reg (Or xs) = (\<Union>x\<in>set xs. evaluate sel reg x)"
| "evaluate sel reg (Glob g iv) = leaf sel reg ''glob'' [g] iv"
| "evaluate sel reg (Ids ss iv) = leaf sel reg ''ids'' ss iv"
| "evaluate sel reg (Plugin ss iv) = leaf sel reg ''plugin'' ss iv"
| "evaluate sel reg (Instance ss iv) = leaf sel reg ''instance'' ss iv"
| "evaluate sel reg (Label ss iv) = leaf sel reg ''label'' ss iv"
| "evaluate sel reg (Module ss iv) = leaf sel reg ''module'' ss iv"
| "evaluate sel reg (Source ss iv) = leaf sel reg ''source'' ss iv"

text \<open>
  Modelled from the spec: the inversion of an expression, absent from \<^verbatim>\<open>events.ts\<close>.
  An absent \<^verbatim>\<open>inverted\<close> counts as false.
\<close>

definition toggle :: "bool option \<Rightarrow> bool option" where
  "toggle iv = Some (iv \<noteq> Some True)"

fun invert :: "RouteTargetExpression \<Rightarrow> RouteTargetExpression" where
  "invert (And xs) = Or (map invert xs)"
| "invert (Or xs) = And (map invert xs)"
| "invert (Glob g iv) = Glob g (toggle iv)"
| "invert (Ids ss iv) = Ids ss (toggle iv)"
| "invert (Plugin ss iv) = Plugin ss (toggle iv)"
| "invert (Instance ss iv) = Instance ss (toggle iv)"
| "invert (Label ss iv) = Label ss (toggle iv)"
| "invert (Module ss iv) = Module ss (toggle iv)"
| "invert (Source ss iv) = Source ss (toggle iv)"

fun is_leaf :: "RouteTargetExpression \<Rightarrow> bool" where
  "is_leaf (And xs) = False"
| "is_leaf (Or xs) = False"
| "is_leaf x = True"

section \<open>The state reported by spark:emit\<close>

text \<open>The six values of \<^verbatim>\<open>SparkEmitEvent.state\<close>.\<close>

datatype SparkEmitState = Queued | Working | Done | Dropped | Blocked | Expired

text \<open>
  Modelled from the spec: the receiver's record of the state of each correlation, which
  is not part of \<^verbatim>\<open>events.ts\<close> (the file declares the payload only). A correlation is
  the pair of \<^verbatim>\<open>id\<close> and \<^verbatim>\<open>eventId\<close>. The progression is
  \<^verbatim>\<open>queued\<close> to \<^verbatim>\<open>working\<close> to one of \<^verbatim>\<open>done\<close>, \<^verbatim>\<open>dropped\<close>, \<^verbatim>\<open>blocked\<close>,
  \<^verbatim>\<open>expired\<close>; the first delivery of a correlation is recorded as it comes, and a later
  delivery is recorded only when it is the next step of the progression: a repeated or
  out-of-order delivery changes nothing.
\<close>

text \<open>
  Modelled from the spec: the steps of the progression, absent from \<^verbatim>\<open>events.ts\<close>, and
  the position of a state in it.
\<close>

fun follows :: "SparkEmitState \<Rightarrow> SparkEmitState \<Rightarrow> bool" where
  "follows Queued s = (s = Working)"
| "follows Working s = (s = Done \<or> s = Dropped \<or> s = Blocked \<or> s = Expired)"
| "follows s s' = False"

fun rank :: "SparkEmitState \<Rightarrow> nat" where
  "rank Queued = 0"
| "rank Working = 1"
| "rank s = 2"

type_synonym correlation = "string \<times> string option"

type_synonym emit_log = "correlation \<rightharpoonup> SparkEmitState"

text \<open>
  Modelled from the spec: the receiver's handling of one delivery and of a sequence of
  deliveries, absent from \<^verbatim>\<open>events.ts\<close>.
\<close>

definition deliver :: "emit_log \<Rightarrow> correlation \<times> SparkEmitState \<Rightarrow> emit_log" where
  "deliver log d =
     (case log (fst d) of
        None \<Rightarrow> log(fst d \<mapsto> snd d)
      | Some s \<Rightarrow> if follows s (snd d) then log(fst d \<mapsto> snd d) else log)"

definition deliver_all :: "emit_log \<Rightarrow> (correlation \<times> SparkEmitState) list \<Rightarrow> emit_log" where
  "deliver_all log ds = foldl deliver log ds"

section \<open>Facts about wire objects and conformance\<close>

lemma map_of_filter_notin:
  "map_of (filter (\<lambda>kv. fst kv \<notin> set ks) kvs) k = (if k \<in> set ks then None else map_of kvs k)"
  by (induction kvs) auto

lemma map_of_filter_neq:
  "map_of (filter (\<lambda>kv. fst kv \<noteq> k) kvs) k' = (if k' = k then None else map_of kvs k')"
  by (induction kvs) auto

lemma find_in_set: "find P xs = Some x \<Longrightarrow> x \<in> set xs"
  by (induction xs) (auto split: if_splits)

lemma find_as_filter:
  "find P xs = (case filter P xs of [] \<Rightarrow> None | x # ys \<Rightarrow> Some x)"
  by (induction xs) auto

lemma conforms_TString: "conforms ext TString y \<longleftrightarrow> (\<exists>s. y = JStr s)"
  by (cases y) simp_all

lemma conforms_TNumber: "conforms ext TNumber y \<longleftrightarrow> (\<exists>n. y = JNum n)"
  by (cases y) simp_all

lemma conforms_TBoolean: "conforms ext TBoolean y \<longleftrightarrow> (\<exists>b. y = JBool b)"
  by (cases y) simp_all

lemma conforms_TLit: "conforms ext (TLit s) y \<longleftrightarrow> y = JStr s"
  by simp

lemma conforms_TBoolLit: "conforms ext (TBoolLit b) y \<longleftrightarrow> y = JBool b"
  by simp

lemma conforms_TArray:
  "conforms ext (TArray t) x \<longleftrightarrow> (\<exists>xs. x = JArr xs \<and> (\<forall>y\<in>set xs. conforms ext t y))"
  by (cases x) (simp_all add: list_all_iff)

lemma conforms_TUnion: "conforms ext (TUnion ts) v \<longleftrightarrow> (\<exists>t\<in>set ts. conforms ext t v)"
  by (simp add: list_ex_iff)

lemma conforms_string_array:
  "conforms ext (TArray TString) x \<longleftrightarrow> (\<exists>ss. x = JArr (map JStr ss))"
proof -
  have "(\<forall>y\<in>set xs. \<exists>s. y = JStr s) \<longleftrightarrow> (\<exists>ss. xs = map JStr ss)" for xs
    by (simp add: ex_map_conv)
  then show ?thesis
    by (auto simp: conforms_TArray conforms_TString simp del: conforms.simps)
qed

lemma conforms_literals: "conforms ext (literals ss) x \<longleftrightarrow> (\<exists>s\<in>set ss. x = JStr s)"
  by (auto simp: literals_def list_ex_iff)

lemma conforms_keyof: "conforms ext (keyof ss) x \<longleftrightarrow> (\<exists>s\<in>set ss. x = JStr s)"
  by (auto simp: keyof_def list_ex_iff)

lemma conforms_open_record: "conforms ext (TRecord TUnknown) x \<longleftrightarrow> is_obj x"
  by (cases x) (simp_all add: list_all_iff)

lemma structural_TObj_iff:
  "structural ext (TObj ms) v \<longleftrightarrow> is_obj v \<and> (\<forall>m\<in>set ms. conforms_member ext m v)"
  by (cases v) (simp_all add: list_all_iff)

lemma structural_TInter:
  "structural ext (TInter ts) v \<longleftrightarrow> (\<forall>t\<in>set ts. structural ext t v)"
  by (simp add: list_all_iff)

lemma conforms_TObj_iff:
  "conforms ext (TObj ms) v \<longleftrightarrow>
     is_obj v \<and> (\<forall>m\<in>set ms. conforms_member ext m v)
     \<and> (weak (TObj ms) \<longrightarrow> shares_member (TObj ms) v)"
  by (cases v) (simp_all add: list_all_iff)

text \<open>An interface with a required member is not weak, and conformance is structural.\<close>

lemma conforms_strict_TObj_iff:
  "\<not> weak (TObj ms) \<Longrightarrow>
   conforms ext (TObj ms) v \<longleftrightarrow> is_obj v \<and> (\<forall>m\<in>set ms. conforms_member ext m v)"
  by (simp add: conforms_TObj_iff del: conforms.simps weak.simps)

lemma required_member_not_weak: "req n t \<in> set ms \<Longrightarrow> \<not> weak (TObj ms)"
proof
  assume r: "req n t \<in> set ms" and "weak (TObj ms)"
  then have "\<forall>m\<in>set ms. member_optional m" by (simp add: list_all_iff)
  with r have "member_optional (req n t)" by blast
  then show False by simp
qed

lemma is_obj_drop_props: "is_obj (drop_props ks v) = is_obj v"
  by (cases v) simp_all

lemma is_obj_set_prop: "is_obj (set_prop k x v) = is_obj v"
  by (cases v) simp_all

lemma get_prop_drop_props:
  "get_prop (drop_props ks v) k = (if k \<in> set ks then None else get_prop v k)"
  by (cases v) (simp_all add: map_of_filter_notin)

lemma get_prop_set_prop:
  "get_prop (set_prop k x v) k' = (if is_obj v \<and> k' = k then Some x else get_prop v k')"
  by (cases v) (simp_all add: map_of_filter_neq)

lemmas base_conforms = conforms_TString conforms_TNumber conforms_TBoolean

lemmas obj_simps = conforms_TObj_iff is_obj_drop_props is_obj_set_prop get_prop_drop_props
  get_prop_set_prop

lemmas obj_dels = conforms.simps get_prop.simps drop_props.simps set_prop.simps

lemma conforms_req:
  "conforms ext (TObj ms) v \<Longrightarrow> req n t \<in> set ms \<Longrightarrow>
   \<exists>x. get_prop v n = Some x \<and> conforms ext t x"
  by (force simp: conforms_TObj_iff simp del: obj_dels weak.simps split: option.splits)

lemma conforms_opt:
  "conforms ext (TObj ms) v \<Longrightarrow> opt n t \<in> set ms \<Longrightarrow>
   get_prop v n = None \<or> (\<exists>x. get_prop v n = Some x \<and> conforms ext t x)"
  by (force simp: conforms_TObj_iff simp del: obj_dels weak.simps split: option.splits)

lemma member_decl_in_members:
  "member_decl t n = Some m \<Longrightarrow> t = TObj (members t) \<and> m \<in> set (members t)"
  by (cases t) (auto simp: member_decl_def dest: find_in_set)

lemma conforms_decl_req:
  assumes "conforms ext t v" and "member_decl t n = Some (req n u)"
  shows "\<exists>x. get_prop v n = Some x \<and> conforms ext u x"
  using member_decl_in_members[OF assms(2)] assms(1) conforms_req[of ext "members t" v n u]
  by (auto simp del: conforms.simps)

lemma conforms_decl_opt:
  assumes "conforms ext t v" and "member_decl t n = Some (opt n u)"
  shows "get_prop v n = None \<or> (\<exists>x. get_prop v n = Some x \<and> conforms ext u x)"
  using member_decl_in_members[OF assms(2)] assms(1) conforms_opt[of ext "members t" v n u]
  by (auto simp del: conforms.simps)

text \<open>
  In an interface that is not weak, optional members can be dropped, and a member can be
  set to a value of its type.
\<close>

lemma conforms_drop_optional:
  assumes "conforms ext (TObj ms) v"
      and "\<not> weak (TObj ms)"
      and "\<forall>m\<in>set ms. member_name m \<in> set ks \<longrightarrow> member_optional m"
  shows "conforms ext (TObj ms) (drop_props ks v)"
  unfolding conforms_strict_TObj_iff[OF assms(2)]
proof (intro conjI ballI)
  show "is_obj (drop_props ks v)"
    using assms(1) by (simp add: conforms_TObj_iff is_obj_drop_props del: obj_dels weak.simps)
next
  fix m assume m: "m \<in> set ms"
  obtain n b t where mm: "m = Member n b t" by (cases m)
  from assms(1) m have "conforms_member ext m v"
    by (simp add: conforms_TObj_iff del: obj_dels weak.simps)
  with assms(3) m show "conforms_member ext m (drop_props ks v)"
    unfolding mm by (auto simp: get_prop_drop_props simp del: obj_dels)
qed

lemma conforms_set_prop:
  assumes "conforms ext (TObj ms) v"
      and "\<not> weak (TObj ms)"
      and "\<forall>m\<in>set ms. member_name m = k \<longrightarrow> conforms ext (member_type m) x"
  shows "conforms ext (TObj ms) (set_prop k x v)"
  unfolding conforms_strict_TObj_iff[OF assms(2)]
proof (intro conjI ballI)
  show "is_obj (set_prop k x v)"
    using assms(1) by (simp add: conforms_TObj_iff is_obj_set_prop del: obj_dels weak.simps)
next
  fix m assume m: "m \<in> set ms"
  obtain n b t where mm: "m = Member n b t" by (cases m)
  from assms(1) m have "conforms_member ext m v"
    by (simp add: conforms_TObj_iff del: obj_dels weak.simps)
  with assms(3) m show "conforms_member ext m (set_prop k x v)"
    unfolding mm by (auto simp: get_prop_set_prop simp del: obj_dels)
qed

lemma route_json_not_str: "route_json X \<noteq> JStr s"
  by (cases X) (simp_all add: leaf_json_def)

lemma route_json_not_arr: "route_json X \<noteq> JArr xs"
  by (cases X) (simp_all add: leaf_json_def)

lemma route_json_type: "\<exists>s. get_prop (route_json X) ''type'' = Some (JStr s)"
  by (cases X) (simp_all add: leaf_json_def)

text \<open>The catalogue has exactly the keys that \<^verbatim>\<open>module:announce\<close> refers to.\<close>

lemma catalogue_keys: "map fst (ProtocolEvents c) = ProtocolEventNames"
  by (simp add: ProtocolEvents_def ProtocolEventNames_def)

section \<open>Commit: the optimistic-concurrency guard\<close>




section \<open>Routing: inversion is the complement within the registry\<close>

lemma leaf_toggle:
  "leaf sel reg kind pats (toggle iv) = registry_ids reg - leaf sel reg kind pats iv"
  by (auto simp: leaf_def Let_def registry_ids_def toggle_def)

lemma evaluate_subset: "evaluate sel reg X \<subseteq> registry_ids reg"
proof (induction X)
  case (Or xs)
  then show ?case by auto
qed (auto simp: leaf_def Let_def registry_ids_def)

lemma evaluate_invert: "evaluate sel reg (invert X) = registry_ids reg - evaluate sel reg X"
proof (induction X)
  case (And xs)
  then show ?case by auto
next
  case (Or xs)
  then show ?case by auto
qed (simp_all add: leaf_toggle)

text \<open>
  C2. For every expression and every registry, the inversion of the expression evaluates
  to the ids of the registry minus the evaluation of the expression. So an inverted leaf
  whose matcher matches no entry evaluates to the whole registry, which is not empty
  unless the registry is.
\<close>

theorem invert_is_complement:
  "evaluate sel reg (invert X) = registry_ids reg - evaluate sel reg X
   \<and> (is_leaf X \<and> evaluate sel reg X = {} \<longrightarrow>
        evaluate sel reg (invert X) = registry_ids reg
      \<and> (reg \<noteq> [] \<longrightarrow> evaluate sel reg (invert X) \<noteq> {}))"
  using evaluate_invert[of sel reg X] by (auto simp: registry_ids_def)

theorem invert_is_complement_witness:
  "evaluate (\<lambda>kind pats i m. i \<in> set pats) [(''stage-web'', ()), (''telegram-bot'', ())]
     (Ids [''discord-bot''] None) = {}
   \<and> evaluate (\<lambda>kind pats i m. i \<in> set pats) [(''stage-web'', ()), (''telegram-bot'', ())]
     (invert (Ids [''discord-bot''] None)) = {''stage-web'', ''telegram-bot''}"
  using invert_is_complement[of "\<lambda>kind pats i m. i \<in> set pats"
      "[(''stage-web'', ()), (''telegram-bot'', ())]" "Ids [''discord-bot''] None"]
  by (auto simp add: leaf_def registry_ids_def toggle_def)

section \<open>spark:emit: the state only moves forward\<close>

lemma deliver_step:
  assumes "log k = Some s"
  shows "\<exists>s'. deliver log d k = Some s' \<and> (s' = s \<or> follows s s')"
  using assms by (cases d) (auto simp: deliver_def split: option.splits)

lemma follows_rank: "follows s s' \<Longrightarrow> rank s < rank s'"
  by (cases s; cases s') auto

text \<open>
  C3. Whatever is delivered, in whatever order and however often, the state recorded for
  a correlation moves along the progression only: the state after the deliveries is
  reached from the state before them by steps of the progression, and when it differs it
  is strictly later. A recorded \<^verbatim>\<open>done\<close> is never followed by \<^verbatim>\<open>working\<close>.
\<close>

theorem emit_state_one_way:
  assumes "log k = Some s"
  shows "\<exists>s'. deliver_all log ds k = Some s' \<and> follows\<^sup>*\<^sup>* s s'
           \<and> (s' \<noteq> s \<longrightarrow> rank s < rank s')"
  using assms
proof (induction ds arbitrary: log s)
  case Nil
  then show ?case by (simp add: deliver_all_def)
next
  case (Cons d ds)
  from deliver_step[of log k s d] Cons.prems obtain s1 where
    s1: "deliver log d k = Some s1" and st: "s1 = s \<or> follows s s1" by blast
  from Cons.IH[of "deliver log d" s1] s1 obtain s' where
    a: "deliver_all (deliver log d) ds k = Some s'" and b: "follows\<^sup>*\<^sup>* s1 s'"
    and c: "s' \<noteq> s1 \<longrightarrow> rank s1 < rank s'" by blast
  have "deliver_all log (d # ds) k = Some s'" using a by (simp add: deliver_all_def)
  moreover have "follows\<^sup>*\<^sup>* s s'" using st b by (auto intro: converse_rtranclp_into_rtranclp)
  moreover have "s' \<noteq> s \<longrightarrow> rank s < rank s'"
    using st c follows_rank[of s s1] by (cases "s' = s1") auto
  ultimately show ?case by blast
qed

theorem emit_state_one_way_witness:
  "deliver_all [(''spark-1'', Some ''evt-1'') \<mapsto> Done]
     [((''spark-1'', Some ''evt-1''), Working), ((''spark-1'', Some ''evt-1''), Queued)]
     (''spark-1'', Some ''evt-1'') = Some Done
   \<and> deliver_all [(''spark-1'', Some ''evt-1'') \<mapsto> Queued]
     [((''spark-1'', Some ''evt-1''), Working), ((''spark-1'', Some ''evt-1''), Working),
      ((''spark-1'', Some ''evt-1''), Done), ((''spark-1'', Some ''evt-1''), Queued)]
     (''spark-1'', Some ''evt-1'') = Some Done"
  using emit_state_one_way[of "[(''spark-1'', Some ''evt-1'') \<mapsto> Done]"
      "(''spark-1'', Some ''evt-1'')" Done
      "[((''spark-1'', Some ''evt-1''), Working), ((''spark-1'', Some ''evt-1''), Queued)]"]
  by (simp add: deliver_all_def deliver_def)

section \<open>The config envelope: what the declaration requires\<close>

text \<open>
  C4, as stated, fails on the declaration: \<^verbatim>\<open>full\<close>, \<^verbatim>\<open>patch\<close> and
  \<^verbatim>\<open>baseRevision\<close> are three optional members with nothing that ties them together.
  An envelope with neither payload, an envelope with both, and an envelope with a patch
  and no baseRevision are all members of the type.
\<close>

theorem envelope_invariant_counterexample:
  "conforms no_ext (ModuleConfigEnvelope (TRecord TUnknown))
     (JObj [(''configId'', JStr ''stage-ui-live2d''), (''revision'', JNum 12),
            (''schemaVersion'', JNum 2)])
   \<and> get_prop (JObj [(''configId'', JStr ''stage-ui-live2d''), (''revision'', JNum 12),
            (''schemaVersion'', JNum 2)]) ''full'' = None
   \<and> get_prop (JObj [(''configId'', JStr ''stage-ui-live2d''), (''revision'', JNum 12),
            (''schemaVersion'', JNum 2)]) ''patch'' = None
   \<and> conforms no_ext (ModuleConfigEnvelope (TRecord TUnknown))
     (JObj [(''configId'', JStr ''stage-ui-live2d''), (''revision'', JNum 12),
            (''schemaVersion'', JNum 2), (''full'', JObj [(''model'', JStr ''Hiyori'')]),
            (''patch'', JObj [(''model'', JStr ''Haru'')])])
   \<and> conforms no_ext (ModuleConfigEnvelope (TRecord TUnknown))
     (JObj [(''configId'', JStr ''stage-ui-live2d''), (''revision'', JNum 12),
            (''schemaVersion'', JNum 2), (''patch'', JObj [(''model'', JStr ''Haru'')])])
   \<and> get_prop (JObj [(''configId'', JStr ''stage-ui-live2d''), (''revision'', JNum 12),
            (''schemaVersion'', JNum 2), (''patch'', JObj [(''model'', JStr ''Haru'')])])
        ''baseRevision'' = None"
  by (simp add: ModuleConfigEnvelope_def no_ext_def)

text \<open>
  C4, amended. In a \<^verbatim>\<open>ModuleConfigEnvelope\<close> the members \<^verbatim>\<open>full\<close>, \<^verbatim>\<open>patch\<close> and
  \<^verbatim>\<open>baseRevision\<close> are optional independently of one another: dropping any of them
  from an envelope gives an envelope, and so does setting both \<^verbatim>\<open>full\<close> and
  \<^verbatim>\<open>patch\<close> to values of their types. A \<^verbatim>\<open>baseRevision\<close> that is present is a number.
\<close>

theorem envelope_payload_members_optional:
  assumes "conforms ext (ModuleConfigEnvelope c) v"
      and "set ks \<subseteq> {''full'', ''patch'', ''baseRevision''}"
  shows "conforms ext (ModuleConfigEnvelope c) (drop_props ks v)
     \<and> (conforms ext c f \<and> conforms ext (Partial c) p \<longrightarrow>
          conforms ext (ModuleConfigEnvelope c) (set_prop ''patch'' p (set_prop ''full'' f v)))
     \<and> (get_prop v ''baseRevision'' = None \<or> (\<exists>n. get_prop v ''baseRevision'' = Some (JNum n)))"
proof -
  have nin: "''configId'' \<notin> set ks" "''revision'' \<notin> set ks" "''schemaVersion'' \<notin> set ks"
    "''source'' \<notin> set ks"
    using assms(2) by auto
  have "conforms ext (ModuleConfigEnvelope c) (drop_props ks v)"
    using assms(1) nin unfolding ModuleConfigEnvelope_def
    by (simp add: obj_simps del: obj_dels split: option.splits)
  moreover have "conforms ext c f \<and> conforms ext (Partial c) p \<longrightarrow>
          conforms ext (ModuleConfigEnvelope c) (set_prop ''patch'' p (set_prop ''full'' f v))"
    using assms(1) unfolding ModuleConfigEnvelope_def
    by (simp add: obj_simps del: obj_dels split: option.splits)
  moreover have "get_prop v ''baseRevision'' = None
      \<or> (\<exists>n. get_prop v ''baseRevision'' = Some (JNum n))"
    using assms(1) unfolding ModuleConfigEnvelope_def
    by (auto simp: obj_simps conforms_TNumber simp del: obj_dels split: option.splits)
  ultimately show ?thesis by blast
qed

theorem envelope_payload_members_optional_witness:
  "conforms no_ext (ModuleConfigEnvelope (TRecord TUnknown))
     (JObj [(''configId'', JStr ''stage-ui-live2d''), (''revision'', JNum 13),
            (''schemaVersion'', JNum 2), (''patch'', JObj [(''model'', JStr ''Haru'')]),
            (''baseRevision'', JNum 12)])
   \<and> conforms no_ext (ModuleConfigEnvelope (TRecord TUnknown))
     (drop_props [''patch'', ''baseRevision'']
       (JObj [(''configId'', JStr ''stage-ui-live2d''), (''revision'', JNum 13),
            (''schemaVersion'', JNum 2), (''patch'', JObj [(''model'', JStr ''Haru'')]),
            (''baseRevision'', JNum 12)]))
   \<and> drop_props [''patch'', ''baseRevision'']
       (JObj [(''configId'', JStr ''stage-ui-live2d''), (''revision'', JNum 13),
            (''schemaVersion'', JNum 2), (''patch'', JObj [(''model'', JStr ''Haru'')]),
            (''baseRevision'', JNum 12)])
     = JObj [(''configId'', JStr ''stage-ui-live2d''), (''revision'', JNum 13),
            (''schemaVersion'', JNum 2)]"
  using envelope_payload_members_optional[of no_ext "TRecord TUnknown"
      "JObj [(''configId'', JStr ''stage-ui-live2d''), (''revision'', JNum 13),
            (''schemaVersion'', JNum 2), (''patch'', JObj [(''model'', JStr ''Haru'')]),
            (''baseRevision'', JNum 12)]" "[''patch'', ''baseRevision'']"]
  by (simp add: ModuleConfigEnvelope_def no_ext_def)

section \<open>Module level and capability level of the config negotiation\<close>

lemma extends_by_conforms:
  assumes e: "extends_by m k n t" and nw: "\<not> weak m"
  shows "conforms ext k v \<longleftrightarrow>
         conforms ext m v \<and> (\<exists>x. get_prop v n = Some x \<and> conforms ext t x)"
proof -
  from e obtain ms ks where mk: "m = TObj ms" "k = TObj ks"
    by (auto simp: extends_by_def)
  note e' = e[unfolded mk]
  let ?P = "\<lambda>m. member_name m \<notin> set [n]"
  from e' have ms: "ms = filter ?P ks" and len: "length ks = Suc (length ms)"
    and fnd: "find (\<lambda>m. member_name m = n) ks = Some (req n t)"
    by (auto simp: extends_by_def member_decl_def)
  have "length (filter ?P ks) + length (filter (\<lambda>m. \<not> ?P m) ks) = length ks"
    by (rule sum_length_filter_compl)
  with ms len have one: "length (filter (\<lambda>m. \<not> ?P m) ks) = 1" by simp
  then obtain m0 where m0: "filter (\<lambda>m. \<not> ?P m) ks = [m0]"
    by (cases "filter (\<lambda>m. \<not> ?P m) ks") auto
  from fnd m0 have "m0 = req n t" by (simp add: find_as_filter)
  have "(\<forall>m\<in>set ks. conforms_member ext m v) \<longleftrightarrow>
        (\<forall>m\<in>set (filter ?P ks). conforms_member ext m v) \<and>
        (\<forall>m\<in>set (filter (\<lambda>m. \<not> ?P m) ks). conforms_member ext m v)"
    by auto
  also have "\<dots> \<longleftrightarrow> (\<forall>m\<in>set ms. conforms_member ext m v) \<and> conforms_member ext (req n t) v"
    unfolding m0 \<open>m0 = req n t\<close> using ms by simp
  finally have members: "(\<forall>m\<in>set ks. conforms_member ext m v) \<longleftrightarrow>
      (\<forall>m\<in>set ms. conforms_member ext m v) \<and> conforms_member ext (req n t) v" .
  from fnd have "req n t \<in> set ks" by (rule find_in_set)
  then have nwk: "\<not> weak (TObj ks)" by (rule required_member_not_weak)
  from nw have nwm: "\<not> weak (TObj ms)" unfolding mk .
  show ?thesis unfolding mk conforms_strict_TObj_iff[OF nwk] conforms_strict_TObj_iff[OF nwm]
    using members by (auto simp del: obj_dels split: option.splits)
qed

lemma extends_by_string:
  "extends_by m k n TString \<Longrightarrow> \<not> weak m \<Longrightarrow>
   conforms ext k v \<longleftrightarrow> conforms ext m v \<and> (\<exists>s. get_prop v n = Some (JStr s))"
  using extends_by_conforms[of m k n TString ext v]
  by (auto simp: conforms_TString simp del: conforms.simps)

lemmas config_event_defs =
  ModuleConfigurationValidateRequestEvent_def ModuleConfigurationValidateResponseEvent_def
  ModuleConfigurationValidateStatusEvent_def ModuleConfigurationPlanRequestEvent_def
  ModuleConfigurationPlanResponseEvent_def ModuleConfigurationPlanStatusEvent_def
  ModuleConfigurationCommitEvent_def ModuleConfigurationCommitStatusEvent_def
  ModuleConfigurationConfiguredEvent_def
  ModuleContributeCapabilityConfigurationValidateRequestEvent_def
  ModuleContributeCapabilityConfigurationValidateResponseEvent_def
  ModuleContributeCapabilityConfigurationValidateStatusEvent_def
  ModuleContributeCapabilityConfigurationPlanRequestEvent_def
  ModuleContributeCapabilityConfigurationPlanResponseEvent_def
  ModuleContributeCapabilityConfigurationPlanStatusEvent_def
  ModuleContributeCapabilityConfigurationCommitEvent_def
  ModuleContributeCapabilityConfigurationCommitStatusEvent_def
  ModuleContributeCapabilityConfigurationConfiguredEvent_def

lemma config_steps_in_catalogue:
  "list_all (\<lambda>(n, m, k).
       map_of (ProtocolEvents c) (''module:configuration:'' @ n) = Some m
     \<and> map_of (ProtocolEvents c) (''module:contribute:capability:configuration:'' @ n) = Some k)
     (config_steps c)"
  by (simp add: config_steps_def ProtocolEvents_def)

lemma config_steps_extend:
  "list_all (\<lambda>(n, m, k). extends_by m k ''capabilityId'' TString) (config_steps c)"
  by (simp add: config_steps_def extends_by_def member_decl_def config_event_defs)

lemma config_steps_not_weak:
  "list_all (\<lambda>(n, m, k). \<not> weak m) (config_steps c)"
  by (simp add: config_steps_def config_event_defs)

lemma status_state_decl:
  "list_all (\<lambda>t. member_decl t ''state'' = Some (req ''state'' status_states))
        [ModuleConfigurationValidateStatusEvent, ModuleConfigurationPlanStatusEvent,
         ModuleConfigurationCommitStatusEvent,
         ModuleContributeCapabilityConfigurationValidateStatusEvent,
         ModuleContributeCapabilityConfigurationPlanStatusEvent,
         ModuleContributeCapabilityConfigurationCommitStatusEvent]"
  by (simp add: member_decl_def config_event_defs status_states_def)

text \<open>
  C5. For each of the nine steps, the catalogue's capability-level payload type is the
  module-level payload type with exactly one more member, the required string
  \<^verbatim>\<open>capabilityId\<close>: as declarations, and as sets of wire values. The \<^verbatim>\<open>state\<close> of
  every status payload, at both levels, is one of queued, working, done, failed.
\<close>

theorem capability_level_adds_capabilityId:
  "list_all (\<lambda>(n, m, k).
       map_of (ProtocolEvents c) (''module:configuration:'' @ n) = Some m
     \<and> map_of (ProtocolEvents c) (''module:contribute:capability:configuration:'' @ n) = Some k
     \<and> extends_by m k ''capabilityId'' TString
     \<and> (\<forall>ext v. conforms ext k v \<longleftrightarrow>
           conforms ext m v \<and> (\<exists>s. get_prop v ''capabilityId'' = Some (JStr s))))
     (config_steps c)
   \<and> map fst (config_steps c) = [''validate:request'', ''validate:response'',
        ''validate:status'', ''plan:request'', ''plan:response'', ''plan:status'', ''commit'',
        ''commit:status'', ''configured'']
   \<and> list_all (\<lambda>t. member_decl t ''state'' = Some (req ''state'' status_states))
        [ModuleConfigurationValidateStatusEvent, ModuleConfigurationPlanStatusEvent,
         ModuleConfigurationCommitStatusEvent,
         ModuleContributeCapabilityConfigurationValidateStatusEvent,
         ModuleContributeCapabilityConfigurationPlanStatusEvent,
         ModuleContributeCapabilityConfigurationCommitStatusEvent]
   \<and> status_states = TUnion [TLit ''queued'', TLit ''working'', TLit ''done'', TLit ''failed'']"
proof -
  have "list_all (\<lambda>(n, m, k). \<forall>ext v. conforms ext k v \<longleftrightarrow>
           conforms ext m v \<and> (\<exists>s. get_prop v ''capabilityId'' = Some (JStr s)))
     (config_steps c)"
    unfolding list_all_iff
  proof
    fix x assume x: "x \<in> set (config_steps c)"
    obtain n m k where nmk: "x = (n, m, k)" by (cases x) auto
    from x config_steps_extend[of c] have "extends_by m k ''capabilityId'' TString"
      unfolding list_all_iff nmk by auto
    moreover from x config_steps_not_weak[of c] have "\<not> weak m"
      unfolding list_all_iff nmk by auto
    ultimately show "case x of (n, m, k) \<Rightarrow> \<forall>ext v. conforms ext k v \<longleftrightarrow>
           conforms ext m v \<and> (\<exists>s. get_prop v ''capabilityId'' = Some (JStr s))"
      unfolding nmk by (simp add: extends_by_string del: conforms.simps)
  qed
  moreover have "map fst (config_steps c) = [''validate:request'', ''validate:response'',
        ''validate:status'', ''plan:request'', ''plan:response'', ''plan:status'', ''commit'',
        ''commit:status'', ''configured'']"
    by (simp add: config_steps_def)
  moreover have "status_states =
      TUnion [TLit ''queued'', TLit ''working'', TLit ''done'', TLit ''failed'']"
    by (simp add: status_states_def literals_def)
  ultimately show ?thesis
    using config_steps_in_catalogue[of c] config_steps_extend[of c] status_state_decl
    by (simp add: list_all_iff case_prod_unfold)
qed

theorem capability_level_adds_capabilityId_witness:
  "extends_by (ModuleConfigurationCommitEvent (TRecord TUnknown))
     (ModuleContributeCapabilityConfigurationCommitEvent (TRecord TUnknown))
     ''capabilityId'' TString
   \<and> map_of (ProtocolEvents (TRecord TUnknown)) ''module:configuration:commit''
       = Some (ModuleConfigurationCommitEvent (TRecord TUnknown))
   \<and> map_of (ProtocolEvents (TRecord TUnknown))
       ''module:contribute:capability:configuration:commit''
       = Some (ModuleContributeCapabilityConfigurationCommitEvent (TRecord TUnknown))
   \<and> member_decl ModuleContributeCapabilityConfigurationCommitStatusEvent ''state''
       = Some (req ''state''
           (TUnion [TLit ''queued'', TLit ''working'', TLit ''done'', TLit ''failed'']))"
  using capability_level_adds_capabilityId[of "TRecord TUnknown"]
  by (simp add: config_steps_def)


section \<open>Lifecycle status: the reason member\<close>

text \<open>
  C6, as stated, fails on the declarations: \<^verbatim>\<open>reason\<close> is an optional member of
  \<^verbatim>\<open>ModuleStatusEvent\<close> and of \<^verbatim>\<open>ModuleStatusChangeEvent\<close> whatever the phase is,
  so a payload that announces, or requests, the phase \<^verbatim>\<open>failed\<close> without a reason
  is a member of both types.
\<close>

theorem failed_status_reason_counterexample:
  "conforms no_ext ModuleStatusEvent
     (JObj [(''identity'', JObj [(''id'', JStr ''telegram-01''), (''kind'', JStr ''plugin''),
               (''plugin'', JObj [(''id'', JStr ''telegram-bot'')])]),
            (''phase'', JStr ''failed'')])
   \<and> conforms no_ext ModuleStatusChangeEvent
     (JObj [(''identity'', JObj [(''id'', JStr ''telegram-01''), (''kind'', JStr ''plugin''),
               (''plugin'', JObj [(''id'', JStr ''telegram-bot'')])]),
            (''phase'', JStr ''failed'')])
   \<and> get_prop
     (JObj [(''identity'', JObj [(''id'', JStr ''telegram-01''), (''kind'', JStr ''plugin''),
               (''plugin'', JObj [(''id'', JStr ''telegram-bot'')])]),
            (''phase'', JStr ''failed'')]) ''reason'' = None"
  by (simp add: ModuleStatusEvent_def ModuleStatusChangeEvent_def ModuleIdentity_def
      PluginIdentity_def ModulePhase_def literals_def)

text \<open>
  C6, amended. In \<^verbatim>\<open>module:status\<close> and \<^verbatim>\<open>module:status:change\<close> the member
  \<^verbatim>\<open>reason\<close> is optional for every phase, \<^verbatim>\<open>failed\<close> included: dropping it from a
  payload leaves a payload of the same type with the same phase. When it is present it is
  a string.
\<close>

theorem status_reason_optional:
  assumes "t = ModuleStatusEvent \<or> t = ModuleStatusChangeEvent"
      and "conforms ext t v"
  shows "conforms ext t (drop_props [''reason''] v)
     \<and> get_prop (drop_props [''reason''] v) ''phase'' = get_prop v ''phase''
     \<and> get_prop (drop_props [''reason''] v) ''reason'' = None
     \<and> (get_prop v ''reason'' = None \<or> (\<exists>s. get_prop v ''reason'' = Some (JStr s)))"
proof -
  have t: "t = TObj [req ''identity'' ModuleIdentity, req ''phase'' ModulePhase,
     opt ''reason'' TString, opt ''details'' (TRecord TUnknown)]"
    using assms(1) by (auto simp: ModuleStatusEvent_def ModuleStatusChangeEvent_def)
  show ?thesis
    using assms(2) unfolding t
    by (auto simp: obj_simps conforms_TString simp del: obj_dels split: option.splits)
qed

theorem status_reason_optional_witness:
  "conforms no_ext ModuleStatusEvent
     (JObj [(''identity'', JObj [(''id'', JStr ''telegram-01''), (''kind'', JStr ''plugin''),
               (''plugin'', JObj [(''id'', JStr ''telegram-bot'')])]),
            (''phase'', JStr ''failed''), (''reason'', JStr ''token rejected'')])
   \<and> conforms no_ext ModuleStatusEvent
     (drop_props [''reason'']
       (JObj [(''identity'', JObj [(''id'', JStr ''telegram-01''), (''kind'', JStr ''plugin''),
               (''plugin'', JObj [(''id'', JStr ''telegram-bot'')])]),
            (''phase'', JStr ''failed''), (''reason'', JStr ''token rejected'')]))
   \<and> get_prop (drop_props [''reason'']
       (JObj [(''identity'', JObj [(''id'', JStr ''telegram-01''), (''kind'', JStr ''plugin''),
               (''plugin'', JObj [(''id'', JStr ''telegram-bot'')])]),
            (''phase'', JStr ''failed''), (''reason'', JStr ''token rejected'')])) ''phase''
     = Some (JStr ''failed'')"
  using status_reason_optional[of ModuleStatusEvent no_ext
      "JObj [(''identity'', JObj [(''id'', JStr ''telegram-01''), (''kind'', JStr ''plugin''),
               (''plugin'', JObj [(''id'', JStr ''telegram-bot'')])]),
            (''phase'', JStr ''failed''), (''reason'', JStr ''token rejected'')]"]
  by (simp add: ModuleStatusEvent_def ModuleIdentity_def PluginIdentity_def ModulePhase_def
      literals_def no_ext_def)

section \<open>module:announce: the events a module may declare\<close>

text \<open>
  C8. In every \<^verbatim>\<open>module:announce\<close> payload, \<^verbatim>\<open>possibleEvents\<close> is an array whose
  entries are all keys of the catalogue \<^verbatim>\<open>ProtocolEvents\<close>.
\<close>

theorem announce_possibleEvents_in_catalogue:
  assumes "conforms ext (ModuleAnnounceEvent c) v"
  shows "\<exists>xs. get_prop v ''possibleEvents'' = Some (JArr xs)
           \<and> (\<forall>x\<in>set xs. \<exists>k. x = JStr k \<and> k \<in> fst ` set (ProtocolEvents c))"
proof -
  have d: "member_decl (ModuleAnnounceEvent c) ''possibleEvents''
      = Some (req ''possibleEvents'' (TArray (keyof ProtocolEventNames)))"
    by (simp add: member_decl_def ModuleAnnounceEvent_def)
  from conforms_decl_req[OF assms d] obtain x where x: "get_prop v ''possibleEvents'' = Some x"
    and cx: "conforms ext (TArray (keyof ProtocolEventNames)) x"
    by blast
  from cx obtain xs where xs: "x = JArr xs"
    by (auto simp: conforms_TArray simp del: conforms.simps)
  from cx have "\<forall>y\<in>set xs. \<exists>k\<in>set ProtocolEventNames. y = JStr k"
    unfolding xs by (simp add: conforms_TArray conforms_keyof del: conforms.simps)
  moreover have "set ProtocolEventNames = fst ` set (ProtocolEvents c)"
    using catalogue_keys[of c] by (metis set_map)
  ultimately have "\<forall>y\<in>set xs. \<exists>k. y = JStr k \<and> k \<in> fst ` set (ProtocolEvents c)"
    by blast
  with x xs show ?thesis by blast
qed

text \<open>
  A payload that declares two events of the catalogue is accepted; one that declares a
  name outside the catalogue is not a \<^verbatim>\<open>module:announce\<close> payload.
\<close>

theorem announce_possibleEvents_in_catalogue_witness:
  "conforms no_ext (ModuleAnnounceEvent TUndefined)
     (JObj [(''name'', JStr ''telegram''),
            (''identity'', JObj [(''id'', JStr ''telegram-01''), (''kind'', JStr ''plugin''),
               (''plugin'', JObj [(''id'', JStr ''telegram-bot'')])]),
            (''possibleEvents'', JArr [JStr ''spark:notify'', JStr ''input:text''])])
   \<and> (\<exists>xs. get_prop
         (JObj [(''name'', JStr ''telegram''),
            (''identity'', JObj [(''id'', JStr ''telegram-01''), (''kind'', JStr ''plugin''),
               (''plugin'', JObj [(''id'', JStr ''telegram-bot'')])]),
            (''possibleEvents'', JArr [JStr ''spark:notify'', JStr ''input:text''])])
         ''possibleEvents'' = Some (JArr xs)
        \<and> list_all (\<lambda>x. \<exists>k. x = JStr k \<and> k \<in> fst ` set (ProtocolEvents TUndefined)) xs)
   \<and> \<not> conforms no_ext (ModuleAnnounceEvent TUndefined)
     (JObj [(''name'', JStr ''telegram''),
            (''identity'', JObj [(''id'', JStr ''telegram-01''), (''kind'', JStr ''plugin''),
               (''plugin'', JObj [(''id'', JStr ''telegram-bot'')])]),
            (''possibleEvents'', JArr [JStr ''telegram:poll''])])"
proof -
  let ?ev = "JObj [(''name'', JStr ''telegram''),
            (''identity'', JObj [(''id'', JStr ''telegram-01''), (''kind'', JStr ''plugin''),
               (''plugin'', JObj [(''id'', JStr ''telegram-bot'')])]),
            (''possibleEvents'', JArr [JStr ''spark:notify'', JStr ''input:text''])]"
  have a: "conforms no_ext (ModuleAnnounceEvent TUndefined) ?ev"
    by (simp add: ModuleAnnounceEvent_def ModuleIdentity_def PluginIdentity_def keyof_def
        ProtocolEventNames_def)
  have b: "\<not> conforms no_ext (ModuleAnnounceEvent TUndefined)
     (JObj [(''name'', JStr ''telegram''),
            (''identity'', JObj [(''id'', JStr ''telegram-01''), (''kind'', JStr ''plugin''),
               (''plugin'', JObj [(''id'', JStr ''telegram-bot'')])]),
            (''possibleEvents'', JArr [JStr ''telegram:poll''])])"
    by (simp add: ModuleAnnounceEvent_def ModuleIdentity_def PluginIdentity_def keyof_def
        ProtocolEventNames_def)
  from announce_possibleEvents_in_catalogue[OF a] a b show ?thesis
    by (simp add: list_all_iff)
qed


section \<open>The spark channel: destinations and correlation ids\<close>

lemma spark_required_members:
  assumes "t = SparkNotifyEvent \<or> t = SparkEmitEvent \<or> t = SparkCommandEvent"
      and "conforms ext t v"
  shows "(\<exists>ds. get_prop v ''destinations'' = Some (JArr (map JStr ds)))
       \<and> (\<exists>i. get_prop v ''id'' = Some (JStr i))"
proof -
  from assms(1) have d: "member_decl t ''destinations'' = Some (req ''destinations'' (TArray TString))"
    and i: "member_decl t ''id'' = Some (req ''id'' TString)"
    by (auto simp: member_decl_def SparkNotifyEvent_def SparkEmitEvent_def SparkCommandEvent_def)
  from conforms_decl_req[OF assms(2) d] conforms_decl_req[OF assms(2) i]
  show ?thesis by (auto simp: conforms_string_array conforms_TString simp del: conforms.simps)
qed

text \<open>
  C9. In the payloads of \<^verbatim>\<open>spark:notify\<close>, \<^verbatim>\<open>spark:emit\<close> and \<^verbatim>\<open>spark:command\<close>,
  \<^verbatim>\<open>destinations\<close> is required and is an array of strings, so it never holds a
  \<^verbatim>\<open>RouteTargetExpression\<close>; \<^verbatim>\<open>id\<close> is required in all three; \<^verbatim>\<open>eventId\<close> is
  required in \<^verbatim>\<open>spark:notify\<close> and optional in the other two.
\<close>

theorem spark_destinations_plain_ids:
  "(conforms ext SparkNotifyEvent v \<longrightarrow>
      (\<exists>ds. get_prop v ''destinations'' = Some (JArr (map JStr ds)))
    \<and> (\<exists>i. get_prop v ''id'' = Some (JStr i))
    \<and> (\<exists>e. get_prop v ''eventId'' = Some (JStr e)))
 \<and> (conforms ext SparkEmitEvent v \<longrightarrow>
      (\<exists>ds. get_prop v ''destinations'' = Some (JArr (map JStr ds)))
    \<and> (\<exists>i. get_prop v ''id'' = Some (JStr i))
    \<and> (get_prop v ''eventId'' = None \<or> (\<exists>e. get_prop v ''eventId'' = Some (JStr e)))
    \<and> conforms ext SparkEmitEvent (drop_props [''eventId''] v))
 \<and> (conforms ext SparkCommandEvent v \<longrightarrow>
      (\<exists>ds. get_prop v ''destinations'' = Some (JArr (map JStr ds)))
    \<and> (\<exists>i. get_prop v ''id'' = Some (JStr i))
    \<and> (get_prop v ''eventId'' = None \<or> (\<exists>e. get_prop v ''eventId'' = Some (JStr e)))
    \<and> conforms ext SparkCommandEvent (drop_props [''eventId''] v))
 \<and> \<not> conforms ext SparkNotifyEvent (drop_props [''eventId''] v)
 \<and> \<not> conforms ext SparkNotifyEvent (drop_props [''id''] v)
 \<and> \<not> conforms ext SparkNotifyEvent (drop_props [''destinations''] v)
 \<and> \<not> conforms ext SparkEmitEvent (drop_props [''destinations''] v)
 \<and> \<not> conforms ext SparkCommandEvent (drop_props [''destinations''] v)
 \<and> ((conforms ext SparkNotifyEvent v \<or> conforms ext SparkEmitEvent v
        \<or> conforms ext SparkCommandEvent v)
      \<and> get_prop v ''destinations'' = Some (JArr xs) \<longrightarrow> route_json X \<notin> set xs)"
proof -
  have none: "\<And>t k. t = SparkNotifyEvent \<or> t = SparkEmitEvent \<or> t = SparkCommandEvent \<Longrightarrow>
      k = ''destinations'' \<or> k = ''id'' \<Longrightarrow> \<not> conforms ext t (drop_props [k] v)"
  proof
    fix t k assume t: "t = SparkNotifyEvent \<or> t = SparkEmitEvent \<or> t = SparkCommandEvent"
      and k: "k = ''destinations'' \<or> k = ''id''" and c: "conforms ext t (drop_props [k] v)"
    from spark_required_members[OF t c] k show False
      by (auto simp: get_prop_drop_props simp del: obj_dels)
  qed
  have dn: "member_decl SparkNotifyEvent ''eventId'' = Some (req ''eventId'' TString)"
    by (simp add: member_decl_def SparkNotifyEvent_def)
  have de: "member_decl SparkEmitEvent ''eventId'' = Some (opt ''eventId'' TString)"
    by (simp add: member_decl_def SparkEmitEvent_def)
  have dc: "member_decl SparkCommandEvent ''eventId'' = Some (opt ''eventId'' TString)"
    by (simp add: member_decl_def SparkCommandEvent_def)
  have notify: "conforms ext SparkNotifyEvent w \<Longrightarrow> \<exists>e. get_prop w ''eventId'' = Some (JStr e)"
    for w
    using conforms_decl_req[of ext SparkNotifyEvent w, OF _ dn]
    by (auto simp: conforms_TString simp del: conforms.simps)
  have notify_drop: "\<not> conforms ext SparkNotifyEvent (drop_props [''eventId''] v)"
    using notify[of "drop_props [''eventId''] v"]
    by (auto simp: get_prop_drop_props simp del: obj_dels)
  have emit: "conforms ext SparkEmitEvent v \<Longrightarrow>
      get_prop v ''eventId'' = None \<or> (\<exists>e. get_prop v ''eventId'' = Some (JStr e))"
    using conforms_decl_opt[of ext SparkEmitEvent v, OF _ de]
    by (auto simp: conforms_TString simp del: conforms.simps)
  have command: "conforms ext SparkCommandEvent v \<Longrightarrow>
      get_prop v ''eventId'' = None \<or> (\<exists>e. get_prop v ''eventId'' = Some (JStr e))"
    using conforms_decl_opt[of ext SparkCommandEvent v, OF _ dc]
    by (auto simp: conforms_TString simp del: conforms.simps)
  have emit_drop: "conforms ext SparkEmitEvent v \<Longrightarrow>
      conforms ext SparkEmitEvent (drop_props [''eventId''] v)"
    unfolding SparkEmitEvent_def by (rule conforms_drop_optional) (simp_all del: conforms.simps)
  have command_drop: "conforms ext SparkCommandEvent v \<Longrightarrow>
      conforms ext SparkCommandEvent (drop_props [''eventId''] v)"
    unfolding SparkCommandEvent_def by (rule conforms_drop_optional) (simp_all del: conforms.simps)
  have route: "(conforms ext SparkNotifyEvent v \<or> conforms ext SparkEmitEvent v
        \<or> conforms ext SparkCommandEvent v)
      \<and> get_prop v ''destinations'' = Some (JArr xs) \<longrightarrow> route_json X \<notin> set xs"
  proof (intro impI notI, elim conjE)
    assume c: "conforms ext SparkNotifyEvent v \<or> conforms ext SparkEmitEvent v
        \<or> conforms ext SparkCommandEvent v"
      and g: "get_prop v ''destinations'' = Some (JArr xs)" and r: "route_json X \<in> set xs"
    from c obtain ds where "get_prop v ''destinations'' = Some (JArr (map JStr ds))"
      using spark_required_members[of _ ext v] by blast
    with g have "xs = map JStr ds" by simp
    with r show False using route_json_not_str[of X] by auto
  qed
  have A: "conforms ext SparkNotifyEvent v \<longrightarrow>
      (\<exists>ds. get_prop v ''destinations'' = Some (JArr (map JStr ds)))
    \<and> (\<exists>i. get_prop v ''id'' = Some (JStr i))
    \<and> (\<exists>e. get_prop v ''eventId'' = Some (JStr e))"
    using spark_required_members[of SparkNotifyEvent ext v] notify[of v] by simp
  have B: "conforms ext SparkEmitEvent v \<longrightarrow>
      (\<exists>ds. get_prop v ''destinations'' = Some (JArr (map JStr ds)))
    \<and> (\<exists>i. get_prop v ''id'' = Some (JStr i))
    \<and> (get_prop v ''eventId'' = None \<or> (\<exists>e. get_prop v ''eventId'' = Some (JStr e)))
    \<and> conforms ext SparkEmitEvent (drop_props [''eventId''] v)"
    using spark_required_members[of SparkEmitEvent ext v] emit emit_drop by simp
  have C: "conforms ext SparkCommandEvent v \<longrightarrow>
      (\<exists>ds. get_prop v ''destinations'' = Some (JArr (map JStr ds)))
    \<and> (\<exists>i. get_prop v ''id'' = Some (JStr i))
    \<and> (get_prop v ''eventId'' = None \<or> (\<exists>e. get_prop v ''eventId'' = Some (JStr e)))
    \<and> conforms ext SparkCommandEvent (drop_props [''eventId''] v)"
    using spark_required_members[of SparkCommandEvent ext v] command command_drop by simp
  show ?thesis
    by (intro conjI A B C notify_drop route
        none[of SparkNotifyEvent "''id''"] none[of SparkNotifyEvent "''destinations''"]
        none[of SparkEmitEvent "''destinations''"] none[of SparkCommandEvent "''destinations''"])
      simp_all
qed

text \<open>
  An acknowledgement without \<^verbatim>\<open>eventId\<close> is a \<^verbatim>\<open>spark:emit\<close> payload; with a
  routing expression among its destinations it is not.
\<close>

theorem spark_destinations_plain_ids_witness:
  "conforms no_ext SparkEmitEvent
     (JObj [(''id'', JStr ''spark-1''), (''state'', JStr ''working''),
            (''destinations'', JArr [JStr ''character''])])
   \<and> get_prop (JObj [(''id'', JStr ''spark-1''), (''state'', JStr ''working''),
            (''destinations'', JArr [JStr ''character''])]) ''eventId'' = None
   \<and> route_json (Ids [''character''] None) \<notin> set [JStr ''character'']
   \<and> \<not> conforms no_ext SparkEmitEvent
     (JObj [(''id'', JStr ''spark-1''), (''state'', JStr ''working''),
            (''destinations'', JArr [route_json (Ids [''character''] None)])])"
proof -
  let ?ev = "JObj [(''id'', JStr ''spark-1''), (''state'', JStr ''working''),
            (''destinations'', JArr [JStr ''character''])]"
  let ?bad = "JObj [(''id'', JStr ''spark-1''), (''state'', JStr ''working''),
            (''destinations'', JArr [route_json (Ids [''character''] None)])]"
  have a: "conforms no_ext SparkEmitEvent ?ev"
    by (simp add: SparkEmitEvent_def literals_def)
  have g: "get_prop ?ev ''destinations'' = Some (JArr [JStr ''character''])"
    and g': "get_prop ?bad ''destinations'' = Some (JArr [route_json (Ids [''character''] None)])"
    by simp_all
  from spark_destinations_plain_ids[of no_ext ?ev "[JStr ''character'']" "Ids [''character''] None"]
    a g
  have 1: "get_prop ?ev ''eventId'' = None \<and> route_json (Ids [''character''] None) \<notin> set [JStr ''character'']"
    by simp
  from spark_destinations_plain_ids[of no_ext ?bad "[route_json (Ids [''character''] None)]"
      "Ids [''character''] None"] g'
  have 2: "\<not> conforms no_ext SparkEmitEvent ?bad"
    by (metis list.set_intros(1))
  from a 1 2 show ?thesis by blast
qed


section \<open>Event metadata\<close>

lemma conforms_member_cong:
  "get_prop v (member_name m) = get_prop v' (member_name m) \<Longrightarrow>
   conforms_member ext m v = conforms_member ext m v'"
  by (cases m) (simp del: conforms.simps)

text \<open>
  A type with the members \<open>ks\<close> omitted does not look at those members of a value.
\<close>

lemma structural_Omit_agree:
  assumes "object_like t"
      and "\<forall>k. k \<notin> set ks \<longrightarrow> get_prop v k = get_prop v' k"
      and "is_obj v = is_obj v'"
  shows "structural ext (Omit t ks) v = structural ext (Omit t ks) v'"
  using assms
proof (induction t ks rule: Omit.induct)
  case (1 ms ks)
  have "conforms_member ext m v = conforms_member ext m v'"
    if "m \<in> set (filter (\<lambda>m. member_name m \<notin> set ks) ms)" for m
    using that "1.prems"(2) by (intro conforms_member_cong) simp
  with "1.prems"(3) show ?case
    by (simp add: structural_TObj_iff del: structural.simps conforms_member.simps)
next
  case (2 ts ks)
  have "structural ext (Omit t ks) v = structural ext (Omit t ks) v'" if "t \<in> set ts" for t
    using that "2.IH"[of t] "2.prems" by (simp add: list_all_iff)
  then show ?case by (simp add: list_all_iff)
qed simp_all

lemmas payload_defs =
  ErrorEvent_def ModuleAuthenticateEvent_def ModuleAuthenticatedEvent_def
  ModuleCompatibilityRequestEvent_def ModuleCompatibilityResultEvent_def
  RegistryModulesSyncEvent_def ModuleAnnounceEvent_def ModulePreparedEvent_def
  ModuleConfigurationNeededEvent_def ModuleStatusEvent_def config_event_defs
  ModuleContributeCapabilityOfferEvent_def
  ModuleContributeCapabilityConfigurationNeededEvent_def
  ModuleContributeCapabilityActivatedEvent_def ModuleStatusChangeEvent_def
  ModuleConfigureEvent_def UiConfigureEvent_def WebSocketEventInputText_def
  WebSocketEventInputTextVoice_def WebSocketEventInputVoice_def
  WebSocketEventInputTextBase_def WebSocketEventInputTextVoiceBase_def
  WebSocketEventInputVoiceBase_def InputSources_def OutputSources_def WithInputSource_def
  WithOutputSource_def InputSource_def OutputSource_def
  OutputGenAiChatToolCallEvent_def OutputGenAiChatMessageEvent_def
  OutputGenAiChatCompleteEvent_def SparkNotifyEvent_def SparkEmitEvent_def
  SparkCommandEvent_def SpeakTextEvent_def TransportConnectionHeartbeatEvent_def
  ContextUpdateEvent_def ContextUpdate_def

lemma catalogue_object_like: "list_all (\<lambda>nt. object_like (snd nt)) (ProtocolEvents c)"
  by (simp add: ProtocolEvents_def payload_defs)

text \<open>Every payload has a required member other than \<^verbatim>\<open>metadata\<close>.\<close>

lemma catalogue_not_weak:
  "list_all (\<lambda>nt. \<not> weak (Omit (snd nt) [''metadata''])) (ProtocolEvents c)"
  by (simp add: ProtocolEvents_def payload_defs)

lemma catalogue_payload:
  assumes "e \<in> set ProtocolEventNames"
  shows "\<exists>t. map_of (ProtocolEvents c) e = Some t \<and> object_like t
           \<and> \<not> weak (Omit t [''metadata''])"
proof -
  from assms have "e \<in> fst ` set (ProtocolEvents c)"
    using catalogue_keys[of c] by (metis set_map)
  then obtain t where t: "map_of (ProtocolEvents c) e = Some t"
    by (cases "map_of (ProtocolEvents c) e") (auto simp: map_of_eq_None_iff)
  then have "(e, t) \<in> set (ProtocolEvents c)" by (rule map_of_SomeD)
  with catalogue_object_like[of c] catalogue_not_weak[of c]
  have "object_like t \<and> \<not> weak (Omit t [''metadata''])"
    unfolding list_all_iff by (auto simp del: weak.simps Omit.simps)
  with t show ?thesis by blast
qed

text \<open>
  C7, as stated, fails on the declarations: what \<^verbatim>\<open>ProtocolEventOf\<close> gives every
  event is \<^verbatim>\<open>metadata?: Record<string, unknown>\<close>, and no payload refers to
  \<^verbatim>\<open>EventBaseMetadata\<close>. A \<^verbatim>\<open>module:authenticate\<close> event whose metadata has a number
  for \<^verbatim>\<open>event\<close> is a member of its type, and its metadata is not an
  \<^verbatim>\<open>EventBaseMetadata\<close>.
\<close>

theorem event_metadata_counterexample:
  "conforms no_ext (ProtocolEventOf ''module:authenticate'' TUndefined)
     (JObj [(''token'', JStr ''secret''), (''metadata'', JObj [(''event'', JNum 42)])])
   \<and> get_prop (JObj [(''token'', JStr ''secret''), (''metadata'', JObj [(''event'', JNum 42)])])
        ''metadata'' = Some (JObj [(''event'', JNum 42)])
   \<and> \<not> conforms no_ext EventBaseMetadata (JObj [(''event'', JNum 42)])"
  by (simp add: ProtocolEventOf_def ProtocolEvents_def ModuleAuthenticateEvent_def
      EventBaseMetadata_def)

text \<open>
  C7, amended. Every event of the catalogue, taken through \<^verbatim>\<open>ProtocolEventOf\<close>,
  carries an optional \<^verbatim>\<open>metadata\<close> member that is an open record: it may be absent,
  and any object is accepted there. Every \<^verbatim>\<open>EventBaseMetadata\<close> value is an object, so
  it is accepted as the metadata of every event, but the types do not ask for that shape.
  Its \<^verbatim>\<open>event.id\<close> and \<^verbatim>\<open>event.parentId\<close> are any two strings: the types relate
  no parent id to the id of another event.
\<close>

theorem catalogue_metadata_open_record:
  assumes "e \<in> set ProtocolEventNames"
  shows "(conforms ext (ProtocolEventOf e c) v \<longrightarrow>
            (get_prop v ''metadata'' = None \<or> (\<exists>kvs. get_prop v ''metadata'' = Some (JObj kvs)))
          \<and> conforms ext (ProtocolEventOf e c) (drop_props [''metadata''] v))
       \<and> (conforms ext (ProtocolEventOf e c) v \<and> is_obj m \<longrightarrow>
            conforms ext (ProtocolEventOf e c) (set_prop ''metadata'' m v))
       \<and> (conforms ext EventBaseMetadata m \<longrightarrow> is_obj m)
       \<and> conforms ext EventBaseMetadata
           (JObj [(''event'', JObj [(''id'', JStr i), (''parentId'', JStr p)])])"
proof -
  from catalogue_payload[OF assms, of c] obtain t where
    t: "map_of (ProtocolEvents c) e = Some t" and ol: "object_like t"
    and nw: "\<not> weak (Omit t [''metadata''])" by blast
  have eq: "ProtocolEventOf e c =
      TInter [Omit t [''metadata''], TObj [opt ''metadata'' (TRecord TUnknown)]]"
    by (simp add: ProtocolEventOf_def t)
  have md: "structural ext (TObj [opt ''metadata'' (TRecord TUnknown)]) w \<longleftrightarrow>
      is_obj w \<and> (get_prop w ''metadata'' = None \<or> (\<exists>kvs. get_prop w ''metadata'' = Some (JObj kvs)))"
    for w
  proof -
    have "is_obj x \<longleftrightarrow> (\<exists>kvs. x = JObj kvs)" for x by (cases x) simp_all
    then show ?thesis
      by (auto simp: structural_TObj_iff conforms_open_record
          simp del: obj_dels structural.simps split: option.splits)
  qed
  have ev: "conforms ext (ProtocolEventOf e c) w \<longleftrightarrow>
      structural ext (Omit t [''metadata'']) w
      \<and> structural ext (TObj [opt ''metadata'' (TRecord TUnknown)]) w" for w
    unfolding eq using nw by (simp add: structural_TInter del: structural.simps Omit.simps)
  have dr: "structural ext (Omit t [''metadata'']) (drop_props [''metadata''] v)
      = structural ext (Omit t [''metadata'']) v"
    by (rule structural_Omit_agree[OF ol]) (simp_all add: get_prop_drop_props is_obj_drop_props)
  have st: "is_obj v \<Longrightarrow> structural ext (Omit t [''metadata'']) (set_prop ''metadata'' m v)
      = structural ext (Omit t [''metadata'']) v"
    by (rule structural_Omit_agree[OF ol]) (simp_all add: get_prop_set_prop is_obj_set_prop)
  have 1: "conforms ext (ProtocolEventOf e c) v \<longrightarrow>
            (get_prop v ''metadata'' = None \<or> (\<exists>kvs. get_prop v ''metadata'' = Some (JObj kvs)))
          \<and> conforms ext (ProtocolEventOf e c) (drop_props [''metadata''] v)"
    unfolding ev using dr
    by (simp add: md get_prop_drop_props is_obj_drop_props del: obj_dels structural.simps)
  have 2: "conforms ext (ProtocolEventOf e c) v \<and> is_obj m \<longrightarrow>
            conforms ext (ProtocolEventOf e c) (set_prop ''metadata'' m v)"
  proof (intro impI, elim conjE)
    assume c: "conforms ext (ProtocolEventOf e c) v" and m: "is_obj m"
    from c have ov: "is_obj v" unfolding ev by (simp add: md del: obj_dels structural.simps)
    from m obtain kvs where "m = JObj kvs" by (cases m) simp_all
    with c st[OF ov] ov show "conforms ext (ProtocolEventOf e c) (set_prop ''metadata'' m v)"
      unfolding ev
      by (simp add: md get_prop_set_prop is_obj_set_prop del: obj_dels structural.simps)
  qed
  have 3: "conforms ext EventBaseMetadata m \<longrightarrow> is_obj m"
    by (simp add: EventBaseMetadata_def conforms_TObj_iff del: obj_dels)
  have 4: "conforms ext EventBaseMetadata
      (JObj [(''event'', JObj [(''id'', JStr i), (''parentId'', JStr p)])])"
    by (simp add: EventBaseMetadata_def)
  from 1 2 3 4 show ?thesis by (intro conjI)
qed

text \<open>
  A \<^verbatim>\<open>module:authenticate\<close> event takes a full \<^verbatim>\<open>EventBaseMetadata\<close>, with a parent id,
  as its metadata.
\<close>

theorem catalogue_metadata_open_record_witness:
  "''module:authenticate'' \<in> set ProtocolEventNames
   \<and> conforms no_ext (ProtocolEventOf ''module:authenticate'' TUndefined)
       (JObj [(''token'', JStr ''secret'')])
   \<and> conforms no_ext EventBaseMetadata
       (JObj [(''event'', JObj [(''id'', JStr ''e2''), (''parentId'', JStr ''e1'')])])
   \<and> conforms no_ext (ProtocolEventOf ''module:authenticate'' TUndefined)
       (set_prop ''metadata''
          (JObj [(''event'', JObj [(''id'', JStr ''e2''), (''parentId'', JStr ''e1'')])])
          (JObj [(''token'', JStr ''secret'')]))"
proof -
  have n: "''module:authenticate'' \<in> set ProtocolEventNames"
    by (simp add: ProtocolEventNames_def)
  have a: "conforms no_ext (ProtocolEventOf ''module:authenticate'' TUndefined)
       (JObj [(''token'', JStr ''secret'')])"
    by (simp add: ProtocolEventOf_def ProtocolEvents_def ModuleAuthenticateEvent_def)
  have b: "conforms no_ext EventBaseMetadata
       (JObj [(''event'', JObj [(''id'', JStr ''e2''), (''parentId'', JStr ''e1'')])])"
    by (simp add: EventBaseMetadata_def)
  from catalogue_metadata_open_record[OF n, of no_ext TUndefined
      "JObj [(''token'', JStr ''secret'')]"
      "JObj [(''event'', JObj [(''id'', JStr ''e2''), (''parentId'', JStr ''e1'')])]"] a b n
  show ?thesis by simp
qed


section \<open>Context updates: ideas, hints and destinations\<close>

lemma shares_member_iff:
  "shares_member t v \<longleftrightarrow>
     (\<forall>kvs. v = JObj kvs \<longrightarrow> kvs = [] \<or> (\<exists>k\<in>set (member_names t). get_prop v k \<noteq> None))"
proof (cases v)
  case (JObj kvs)
  have "map_of kvs k \<noteq> None \<longleftrightarrow> k \<in> fst ` set kvs" for k
    by (simp add: map_of_eq_None_iff)
  with JObj show ?thesis by (auto simp: list_ex_iff)
qed simp_all

lemma shares_member_obj:
  "is_obj v \<Longrightarrow>
   shares_member t v \<longleftrightarrow> v = JObj [] \<or> (\<exists>k\<in>set (member_names t). get_prop v k \<noteq> None)"
  unfolding shares_member_iff by (cases v) (simp_all del: get_prop.simps)

lemma conforms_member_string_array:
  "conforms_member ext (opt n (TArray TString)) v \<longleftrightarrow>
     get_prop v n = None \<or> (\<exists>ss. get_prop v n = Some (JArr (map JStr ss)))"
  by (cases "get_prop v n") (simp_all add: conforms_string_array del: conforms.simps)

text \<open>
  A \<^verbatim>\<open>ContextUpdateDestinationFilter\<close> is an object with \<^verbatim>\<open>all: true\<close>, or the empty
  object, or an object with \<^verbatim>\<open>include\<close> or \<^verbatim>\<open>exclude\<close>, each of them absent or an
  array of strings.
\<close>

lemma conforms_destination_filter:
  "conforms ext ContextUpdateDestinationFilter d \<longleftrightarrow>
     is_obj d \<and> (get_prop d ''all'' = Some (JBool True)
       \<or> ((d = JObj [] \<or> get_prop d ''include'' \<noteq> None \<or> get_prop d ''exclude'' \<noteq> None)
          \<and> (get_prop d ''include'' = None
             \<or> (\<exists>ss. get_prop d ''include'' = Some (JArr (map JStr ss))))
          \<and> (get_prop d ''exclude'' = None
             \<or> (\<exists>ss. get_prop d ''exclude'' = Some (JArr (map JStr ss))))))"
proof -
  define p_all where "p_all \<longleftrightarrow> get_prop d ''all'' = Some (JBool True)"
  define p_shares where "p_shares \<longleftrightarrow>
    d = JObj [] \<or> get_prop d ''include'' \<noteq> None \<or> get_prop d ''exclude'' \<noteq> None"
  define p_include where "p_include \<longleftrightarrow> get_prop d ''include'' = None
             \<or> (\<exists>ss. get_prop d ''include'' = Some (JArr (map JStr ss)))"
  define p_exclude where "p_exclude \<longleftrightarrow> get_prop d ''exclude'' = None
             \<or> (\<exists>ss. get_prop d ''exclude'' = Some (JArr (map JStr ss)))"
  have "conforms_member ext (req ''all'' (TBoolLit True)) d \<longleftrightarrow> p_all"
    unfolding p_all_def
    by (cases "get_prop d ''all''") (simp_all add: conforms_TBoolLit del: conforms.simps)
  then have a: "conforms ext ContextUpdateDestinationAll d \<longleftrightarrow> is_obj d \<and> p_all"
    unfolding ContextUpdateDestinationAll_def
    by (simp add: conforms_TObj_iff del: obj_dels conforms_member.simps)
  have s: "is_obj d \<Longrightarrow> shares_member ContextUpdateDestinationList d \<longleftrightarrow> p_shares"
    unfolding p_shares_def ContextUpdateDestinationList_def
    by (simp add: shares_member_obj del: get_prop.simps shares_member.simps)
  have l: "conforms ext ContextUpdateDestinationList d \<longleftrightarrow>
      is_obj d \<and> p_shares \<and> p_include \<and> p_exclude"
  proof -
    have "conforms ext ContextUpdateDestinationList d \<longleftrightarrow>
        is_obj d \<and> (p_include \<and> p_exclude)
        \<and> shares_member ContextUpdateDestinationList d"
      unfolding ContextUpdateDestinationList_def p_include_def p_exclude_def
      by (simp add: conforms_TObj_iff conforms_member_string_array
          del: obj_dels shares_member.simps conforms_member.simps)
    with s show ?thesis by blast
  qed
  have "conforms ext ContextUpdateDestinationFilter d \<longleftrightarrow>
      conforms ext ContextUpdateDestinationAll d \<or> conforms ext ContextUpdateDestinationList d"
    unfolding ContextUpdateDestinationFilter_def
    by (simp add: conforms_TUnion del: conforms.simps)
  with a l have "conforms ext ContextUpdateDestinationFilter d \<longleftrightarrow>
      is_obj d \<and> (p_all \<or> (p_shares \<and> p_include \<and> p_exclude))"
    by blast
  then show ?thesis
    unfolding p_all_def p_shares_def p_include_def p_exclude_def .
qed

lemma route_json_members:
  "is_obj (route_json X) \<and> route_json X \<noteq> JObj []
   \<and> get_prop (route_json X) ''include'' = None
   \<and> get_prop (route_json X) ''exclude'' = None
   \<and> get_prop (route_json X) ''all'' \<noteq> Some (JBool True)"
  by (cases X) (auto simp: leaf_json_def split: option.splits)

lemma route_json_not_filter: "\<not> conforms ext ContextUpdateDestinationFilter (route_json X)"
  using route_json_members[of X] unfolding conforms_destination_filter by simp

lemma route_json_not_destinations:
  "\<not> conforms ext (TUnion [TArray TString, ContextUpdateDestinationFilter]) (route_json X)"
  using route_json_not_filter[of ext X] route_json_not_arr[of X]
  by (auto simp: conforms_TUnion conforms_string_array simp del: conforms.simps)

lemma route_json_not_in_destinations:
  assumes "route_json X \<in> set xs"
  shows "\<not> conforms ext (TUnion [TArray TString, ContextUpdateDestinationFilter]) (JArr xs)"
proof
  assume "conforms ext (TUnion [TArray TString, ContextUpdateDestinationFilter]) (JArr xs)"
  then have "(\<exists>ss. xs = map JStr ss) \<or> is_obj (JArr xs)"
    by (auto simp: conforms_TUnion conforms_string_array conforms_destination_filter
        simp del: conforms.simps)
  then obtain ss where "xs = map JStr ss" by auto
  with assms show False using route_json_not_str[of X] by auto
qed

lemma context_update_decls:
  "member_decl (ContextUpdate md ct) ''ideas'' = Some (opt ''ideas'' (TArray TString))"
  "member_decl (ContextUpdate md ct) ''hints'' = Some (opt ''hints'' (TArray TString))"
  "member_decl (ContextUpdate md ct) ''destinations'' =
     Some (opt ''destinations'' (TUnion [TArray TString, ContextUpdateDestinationFilter]))"
  by (simp_all add: member_decl_def ContextUpdate_def)

lemma context_update_set_destinations:
  assumes "conforms ext (ContextUpdate md ct) v"
      and "conforms ext (TUnion [TArray TString, ContextUpdateDestinationFilter]) d"
  shows "conforms ext (ContextUpdate md ct) (set_prop ''destinations'' d v)"
  using assms unfolding ContextUpdate_def
  by (intro conforms_set_prop) (simp_all del: conforms.simps)

text \<open>
  C10. Every \<^verbatim>\<open>ContextUpdate\<close> may carry \<^verbatim>\<open>ideas\<close> and \<^verbatim>\<open>hints\<close>, each an array of
  strings, and an optional \<^verbatim>\<open>destinations\<close> that is either an array of strings or a
  \<^verbatim>\<open>ContextUpdateDestinationFilter\<close>: an object with \<^verbatim>\<open>all: true\<close>, or an object
  with optional string arrays \<^verbatim>\<open>include\<close> and \<^verbatim>\<open>exclude\<close> (the empty object, or one
  that has at least one of the two). This targeting is distinct from
  \<^verbatim>\<open>RouteTargetExpression\<close>: the declared type is not the one of \<^verbatim>\<open>RouteConfig\<close>, no
  routing expression is a \<^verbatim>\<open>ContextUpdateDestinationFilter\<close> or a value of
  \<^verbatim>\<open>destinations\<close>, and no array that holds a routing expression is one.
\<close>

theorem context_update_targeting:
  "(conforms ext (ContextUpdate md ct) v \<longrightarrow>
      (get_prop v ''ideas'' = None
        \<or> (\<exists>ss. get_prop v ''ideas'' = Some (JArr (map JStr ss))))
    \<and> (get_prop v ''hints'' = None
        \<or> (\<exists>ss. get_prop v ''hints'' = Some (JArr (map JStr ss))))
    \<and> (get_prop v ''destinations'' = None
        \<or> (\<exists>ss. get_prop v ''destinations'' = Some (JArr (map JStr ss)))
        \<or> (\<exists>d. get_prop v ''destinations'' = Some d
              \<and> conforms ext ContextUpdateDestinationFilter d))
    \<and> conforms ext (ContextUpdate md ct)
        (drop_props [''ideas'', ''hints'', ''destinations''] v)
    \<and> conforms ext (ContextUpdate md ct) (set_prop ''destinations'' (JArr (map JStr ss)) v)
    \<and> (conforms ext ContextUpdateDestinationFilter d \<longrightarrow>
         conforms ext (ContextUpdate md ct) (set_prop ''destinations'' d v))
    \<and> get_prop v ''destinations'' \<noteq> Some (route_json X)
    \<and> (get_prop v ''destinations'' = Some (JArr xs) \<longrightarrow> route_json X \<notin> set xs))
 \<and> (conforms ext ContextUpdateDestinationFilter d \<longleftrightarrow>
     is_obj d \<and> (get_prop d ''all'' = Some (JBool True)
       \<or> ((d = JObj [] \<or> get_prop d ''include'' \<noteq> None \<or> get_prop d ''exclude'' \<noteq> None)
          \<and> (get_prop d ''include'' = None
             \<or> (\<exists>ss. get_prop d ''include'' = Some (JArr (map JStr ss))))
          \<and> (get_prop d ''exclude'' = None
             \<or> (\<exists>ss. get_prop d ''exclude'' = Some (JArr (map JStr ss)))))))
 \<and> member_decl (ContextUpdate md ct) ''destinations'' =
     Some (opt ''destinations'' (TUnion [TArray TString, ContextUpdateDestinationFilter]))
 \<and> member_decl RouteConfig ''destinations'' =
     Some (opt ''destinations'' (TArray (TUnion [TString, TExt ''RouteTargetExpression''])))
 \<and> \<not> conforms ext ContextUpdateDestinationFilter (route_json X)
 \<and> \<not> conforms ext (TUnion [TArray TString, ContextUpdateDestinationFilter]) (route_json X)
 \<and> (route_json X \<in> set xs \<longrightarrow>
      \<not> conforms ext (TUnion [TArray TString, ContextUpdateDestinationFilter]) (JArr xs))"
proof -
  have A: "conforms ext (ContextUpdate md ct) v \<longrightarrow>
      (get_prop v ''ideas'' = None
        \<or> (\<exists>ss. get_prop v ''ideas'' = Some (JArr (map JStr ss))))
    \<and> (get_prop v ''hints'' = None
        \<or> (\<exists>ss. get_prop v ''hints'' = Some (JArr (map JStr ss))))
    \<and> (get_prop v ''destinations'' = None
        \<or> (\<exists>ss. get_prop v ''destinations'' = Some (JArr (map JStr ss)))
        \<or> (\<exists>d. get_prop v ''destinations'' = Some d
              \<and> conforms ext ContextUpdateDestinationFilter d))
    \<and> conforms ext (ContextUpdate md ct)
        (drop_props [''ideas'', ''hints'', ''destinations''] v)
    \<and> conforms ext (ContextUpdate md ct) (set_prop ''destinations'' (JArr (map JStr ss)) v)
    \<and> (conforms ext ContextUpdateDestinationFilter d \<longrightarrow>
         conforms ext (ContextUpdate md ct) (set_prop ''destinations'' d v))
    \<and> get_prop v ''destinations'' \<noteq> Some (route_json X)
    \<and> (get_prop v ''destinations'' = Some (JArr xs) \<longrightarrow> route_json X \<notin> set xs)"
  proof
    assume c: "conforms ext (ContextUpdate md ct) v"
    have 1: "get_prop v ''ideas'' = None
        \<or> (\<exists>ss. get_prop v ''ideas'' = Some (JArr (map JStr ss)))"
      using conforms_decl_opt[OF c context_update_decls(1)]
      by (auto simp: conforms_string_array simp del: conforms.simps)
    have 2: "get_prop v ''hints'' = None
        \<or> (\<exists>ss. get_prop v ''hints'' = Some (JArr (map JStr ss)))"
      using conforms_decl_opt[OF c context_update_decls(2)]
      by (auto simp: conforms_string_array simp del: conforms.simps)
    note dst = conforms_decl_opt[OF c context_update_decls(3)]
    have 3: "get_prop v ''destinations'' = None
        \<or> (\<exists>ss. get_prop v ''destinations'' = Some (JArr (map JStr ss)))
        \<or> (\<exists>d. get_prop v ''destinations'' = Some d
              \<and> conforms ext ContextUpdateDestinationFilter d)"
      using dst
      by (auto simp: conforms_TUnion conforms_string_array simp del: conforms.simps)
    have 4: "conforms ext (ContextUpdate md ct)
        (drop_props [''ideas'', ''hints'', ''destinations''] v)"
      using c unfolding ContextUpdate_def
      by (intro conforms_drop_optional) (simp_all del: conforms.simps)
    have 5: "conforms ext (ContextUpdate md ct)
        (set_prop ''destinations'' (JArr (map JStr ss)) v)"
    proof -
      have "conforms ext (TUnion [TArray TString, ContextUpdateDestinationFilter])
          (JArr (map JStr ss))"
        by (auto simp: conforms_TUnion conforms_string_array simp del: conforms.simps)
      with c show ?thesis by (rule context_update_set_destinations)
    qed
    have 6: "conforms ext ContextUpdateDestinationFilter d \<longrightarrow>
         conforms ext (ContextUpdate md ct) (set_prop ''destinations'' d v)"
    proof
      assume "conforms ext ContextUpdateDestinationFilter d"
      then have "conforms ext (TUnion [TArray TString, ContextUpdateDestinationFilter]) d"
        by (simp add: conforms_TUnion del: conforms.simps)
      with c show "conforms ext (ContextUpdate md ct) (set_prop ''destinations'' d v)"
        by (rule context_update_set_destinations)
    qed
    have 7: "get_prop v ''destinations'' \<noteq> Some (route_json X)"
      using dst route_json_not_destinations[of ext X] by auto
    have 8: "get_prop v ''destinations'' = Some (JArr xs) \<longrightarrow> route_json X \<notin> set xs"
      using dst route_json_not_in_destinations[of X xs ext] by auto
    from 1 2 3 4 5 6 7 8 show "(get_prop v ''ideas'' = None
        \<or> (\<exists>ss. get_prop v ''ideas'' = Some (JArr (map JStr ss))))
    \<and> (get_prop v ''hints'' = None
        \<or> (\<exists>ss. get_prop v ''hints'' = Some (JArr (map JStr ss))))
    \<and> (get_prop v ''destinations'' = None
        \<or> (\<exists>ss. get_prop v ''destinations'' = Some (JArr (map JStr ss)))
        \<or> (\<exists>d. get_prop v ''destinations'' = Some d
              \<and> conforms ext ContextUpdateDestinationFilter d))
    \<and> conforms ext (ContextUpdate md ct)
        (drop_props [''ideas'', ''hints'', ''destinations''] v)
    \<and> conforms ext (ContextUpdate md ct) (set_prop ''destinations'' (JArr (map JStr ss)) v)
    \<and> (conforms ext ContextUpdateDestinationFilter d \<longrightarrow>
         conforms ext (ContextUpdate md ct) (set_prop ''destinations'' d v))
    \<and> get_prop v ''destinations'' \<noteq> Some (route_json X)
    \<and> (get_prop v ''destinations'' = Some (JArr xs) \<longrightarrow> route_json X \<notin> set xs)"
      by (intro conjI)
  qed
  have B: "member_decl RouteConfig ''destinations'' =
     Some (opt ''destinations'' (TArray (TUnion [TString, TExt ''RouteTargetExpression''])))"
    by (simp add: member_decl_def RouteConfig_def)
  have C: "route_json X \<in> set xs \<longrightarrow>
      \<not> conforms ext (TUnion [TArray TString, ContextUpdateDestinationFilter]) (JArr xs)"
    using route_json_not_in_destinations[of X xs ext] by blast
  show ?thesis
    by (intro conjI A B C context_update_decls(3) conforms_destination_filter
        route_json_not_filter route_json_not_destinations)
qed

text \<open>
  An update addressed to everyone, with one idea and no hints. The filter
  \<^verbatim>\<open>{all: false}\<close> and an inverted glob expression are not destinations.
\<close>

theorem context_update_targeting_witness:
  "conforms no_ext (ContextUpdate (TRecord TUnknown) TUndefined)
     (JObj [(''id'', JStr ''u-1''), (''contextId'', JStr ''ctx-1''),
            (''ideas'', JArr [JStr ''greet the user'']),
            (''strategy'', JStr ''append-self''), (''text'', JStr ''hello''),
            (''destinations'', JObj [(''all'', JBool True)])])
   \<and> conforms no_ext ContextUpdateDestinationFilter (JObj [(''all'', JBool True)])
   \<and> conforms no_ext (ContextUpdate (TRecord TUnknown) TUndefined)
     (drop_props [''ideas'', ''hints'', ''destinations'']
       (JObj [(''id'', JStr ''u-1''), (''contextId'', JStr ''ctx-1''),
            (''ideas'', JArr [JStr ''greet the user'']),
            (''strategy'', JStr ''append-self''), (''text'', JStr ''hello''),
            (''destinations'', JObj [(''all'', JBool True)])]))
   \<and> \<not> conforms no_ext ContextUpdateDestinationFilter (JObj [(''all'', JBool False)])
   \<and> \<not> conforms no_ext ContextUpdateDestinationFilter
       (route_json (Glob ''stage-*'' (Some True)))
   \<and> \<not> conforms no_ext (TUnion [TArray TString, ContextUpdateDestinationFilter])
       (JArr [route_json (Glob ''stage-*'' (Some True))])"
proof -
  let ?u = "JObj [(''id'', JStr ''u-1''), (''contextId'', JStr ''ctx-1''),
            (''ideas'', JArr [JStr ''greet the user'']),
            (''strategy'', JStr ''append-self''), (''text'', JStr ''hello''),
            (''destinations'', JObj [(''all'', JBool True)])]"
  have a: "conforms no_ext (ContextUpdate (TRecord TUnknown) TUndefined) ?u"
    by (simp add: ContextUpdate_def ContextUpdateStrategy_def literals_def
        ContextUpdateDestinationFilter_def ContextUpdateDestinationAll_def
        ContextUpdateDestinationList_def)
  have b: "is_obj (JObj [(''all'', JBool True)])
      \<and> get_prop (JObj [(''all'', JBool True)]) ''all'' = Some (JBool True)"
    by simp
  have f: "\<not> conforms no_ext ContextUpdateDestinationFilter (JObj [(''all'', JBool False)])"
    using context_update_targeting[of no_ext "TRecord TUnknown" TUndefined ?u "[]"
      "JObj [(''all'', JBool False)]" "Glob ''stage-*'' (Some True)" "[]"]
    by (simp del: conforms.simps)
  have g: "route_json (Glob ''stage-*'' (Some True))
      \<in> set [route_json (Glob ''stage-*'' (Some True))]"
    by simp
  from context_update_targeting[of no_ext "TRecord TUnknown" TUndefined ?u "[]"
      "JObj [(''all'', JBool True)]" "Glob ''stage-*'' (Some True)"
      "[route_json (Glob ''stage-*'' (Some True))]"] a b f g
  show ?thesis by blast
qed

end
